theory Spec2Isabelle
  imports Main "HOL-Library.Monad_Syntax" "HOL-Library.Sublist"
begin

section \<open>The types of the source language\<close>

text \<open>
  The builder of \<^verbatim>\<open>ssa/builder.go\<close> reads types through the type checker's
  interface \<^verbatim>\<open>types.Type\<close>. The kinds of type it distinguishes by type switches and
  type assertions are the constructors below. Source positions (\<^verbatim>\<open>token.Pos\<close>) are
  opaque tokens that no decision of the builder depends on; the embedding does not carry them.
\<close>

datatype basic =
    KBool | KInt | KUint64 | KByte | KString | KFloat64
  | KUntypedBool | KUntypedInt | KUntypedString | KUntypedNil | KInvalid

datatype ty =
    TBasic basic
  | TArray ty int
  | TSlice ty
  | TPointer ty
  | TMap ty ty
  | TChan ty
  | TStruct "ty list"
  | TInterface
  | TTuple "ty list"
  | TSignature "ty list" bool "ty list"
  | TNamed string ty
  | TOpaque string

text \<open>
  Modelled from the spec: the methods \<^verbatim>\<open>Underlying\<close> and \<^verbatim>\<open>Deref\<close> of
  \<^verbatim>\<open>types.Type\<close> (package go/types) are not among the source files. The type system
  provides named types, pointers and arrays with a compile-time length; a named type carries its
  underlying type; \<^verbatim>\<open>Deref\<close> gives the element type of a pointer type (or of a named
  type that denotes a pointer type) and any other type unchanged. The builder itself relies on
  that reading: \<^verbatim>\<open>memberFromObject\<close> asserts that \<^verbatim>\<open>Deref\<close> of a receiver type
  is a \<^verbatim>\<open>*types.Named\<close>, and every type switch of the builder is on
  \<^verbatim>\<open>Underlying()\<close>.
\<close>

fun Underlying :: "ty \<Rightarrow> ty" where
  "Underlying (TNamed n u) = u"
| "Underlying t = t"

fun Deref :: "ty \<Rightarrow> ty" where
  "Deref (TPointer t) = t"
| "Deref (TNamed n (TPointer t)) = t"
| "Deref t = t"

definition pointer :: "ty \<Rightarrow> ty" where
  "pointer t = TPointer t"

definition tBool :: ty where "tBool = TBasic KBool"
definition tByte :: ty where "tByte = TBasic KByte"
definition tInt :: ty where "tInt = TBasic KInt"
definition tInvalid :: ty where "tInvalid = TBasic KInvalid"
definition tUntypedNil :: ty where "tUntypedNil = TBasic KUntypedNil"
definition tEface :: ty where "tEface = TInterface"
definition tRangeIter :: ty where "tRangeIter = TOpaque ''iter''"

section \<open>Constants, values and instructions\<close>

text \<open>The constant values of \<^verbatim>\<open>go/exact\<close> that the builder makes or inspects.\<close>

datatype constv = NilV | BoolV bool | IntV int | StringV string

text \<open>\<^verbatim>\<open>exact.BoolVal\<close> asserts that its argument is a boolean constant.\<close>

fun BoolVal :: "constv \<Rightarrow> bool option" where
  "BoolVal (BoolV b) = Some b"
| "BoolVal c = None"

text \<open>
  A \<^verbatim>\<open>Value\<close> is a constant, a package-level object, a parameter, or the result of
  an instruction. The result of an instruction is identified by the place of the instruction
  (block index, position in the block), which never changes while a function is built, and
  carries its type.
\<close>

datatype val =
    Literal' constv ty
  | Reg nat nat ty
  | Global string ty
  | FunctionV string ty
  | Builtin string
  | Parameter string ty

fun Type' :: "val \<Rightarrow> ty" where
  "Type' (Literal' c t) = t"
| "Type' (Reg b i t) = t"
| "Type' (Global n t) = t"
| "Type' (FunctionV n t) = t"
| "Type' (Builtin n) = TBasic KInvalid"
| "Type' (Parameter n t) = t"

definition newLiteral :: "constv \<Rightarrow> ty \<Rightarrow> val" where
  "newLiteral c t = Literal' c t"

definition intLiteral :: "int \<Rightarrow> val" where
  "intLiteral i = newLiteral (IntV i) tInt"

definition nilLiteral :: "ty \<Rightarrow> val" where
  "nilLiteral t = newLiteral NilV t"

definition vZero :: val where "vZero = intLiteral 0"
definition vOne :: val where "vOne = intLiteral 1"
definition vTrue :: val where "vTrue = newLiteral (BoolV True) tBool"
definition vFalse :: val where "vFalse = newLiteral (BoolV False) tBool"

datatype token =
    LAND | LOR | NOT | ARROW
  | ADD | SUB | MUL | QUO | REM | AND | OR | XOR | SHL | SHR | AND_NOT
  | EQL | NEQ | LSS | GTR | LEQ | GEQ
  | INC | DEC | ASSIGN | DEFINE
  | ADD_ASSIGN | SUB_ASSIGN | MUL_ASSIGN | QUO_ASSIGN | REM_ASSIGN
  | AND_ASSIGN | OR_ASSIGN | XOR_ASSIGN | SHL_ASSIGN | SHR_ASSIGN | AND_NOT_ASSIGN
  | BREAK | CONTINUE | GOTO | FALLTHROUGH
  | CONST_tok | VAR_tok | TYPE_tok | IMPORT_tok

datatype callcommon = CallCommon (Func: "val option") (Args: "val list") (HasEllipsis: bool)

datatype instr =
    Alloc ty bool
  | BinOp token val val ty
  | UnOp token val bool ty
  | Call callcommon ty
  | Phi "val list" string ty
  | ChangeType val ty
  | ChangeInterface val ty
  | MakeInterface val ty
  | Convert val ty
  | MakeSlice val val ty
  | MakeMap "val option" ty
  | MakeChan val ty
  | Index val val ty
  | IndexAddr val val ty
  | Lookup val val bool ty
  | Slice val "val option" "val option" ty
  | Extract val nat ty
  | Store val val
  | MapUpdate val val val
  | Send val val
  | Go callcommon
  | Defer callcommon
  | RunDefers
  | Jump
  | If' val
  | Ret "val list"
  | Panic val
  | Range' val ty
  | Next val bool ty

fun instrType :: "instr \<Rightarrow> ty" where
  "instrType (Alloc t h) = t"
| "instrType (BinOp op x y t) = t"
| "instrType (UnOp op x c t) = t"
| "instrType (Call c t) = t"
| "instrType (Phi es c t) = t"
| "instrType (ChangeType x t) = t"
| "instrType (ChangeInterface x t) = t"
| "instrType (MakeInterface x t) = t"
| "instrType (Convert x t) = t"
| "instrType (MakeSlice n m t) = t"
| "instrType (MakeMap r t) = t"
| "instrType (MakeChan s t) = t"
| "instrType (Index x i t) = t"
| "instrType (IndexAddr x i t) = t"
| "instrType (Lookup x i c t) = t"
| "instrType (Slice x l h t) = t"
| "instrType (Extract x i t) = t"
| "instrType (Range' x t) = t"
| "instrType (Next x s t) = t"
| "instrType i = TBasic KInvalid"

section \<open>Basic blocks and functions under construction\<close>

record block =
  Comment :: string
  Instrs :: "instr list"
  Preds :: "nat list"
  Succs :: "nat list"

record targets =
  t_break :: "nat option"
  t_continue :: "nat option"
  t_fallthrough :: "nat option"

record lblock =
  lb_goto :: nat
  lb_break :: "nat option"
  lb_continue :: "nat option"

datatype objkind = Var | Fun | Con | Typ | PkgName

datatype obj = Object (objName: string) (objKind: objkind) (objType: ty)

text \<open>
  The part of \<^verbatim>\<open>Function\<close> that the builder reads and writes while it lowers a body.
  Blocks are referred to by their index in \<^verbatim>\<open>Blocks\<close>; a nil block pointer is
  \<open>None\<close>. \<open>isInit\<close> records the test \<^verbatim>\<open>fn == fn.Pkg.Init\<close>.
\<close>

record func =
  SigResults :: "ty list"
  Blocks :: "block list"
  currentBlock :: "nat option"
  Locals :: "val list"
  namedResults :: "val list option"
  targetStack :: "targets list"
  objects :: "(obj \<times> val) list"
  lblocks :: "(string \<times> lblock) list"
  isInit :: bool

section \<open>Emit helpers\<close>

text \<open>
  Modelled from the spec: the methods of \<^verbatim>\<open>Function\<close> and \<^verbatim>\<open>BasicBlock\<close> and
  the \<^verbatim>\<open>emit*\<close> helpers (func.go, emit.go, lvalue.go of package ssa) are not among the
  source files. Blocks expose \<^verbatim>\<open>emit(instr)\<close>, which appends and returns the instruction
  as a Value if applicable. A failure of the Go program (a nil dereference, a failed type
  assertion, an index out of range, an explicit panic) is the result \<open>None\<close>.
\<close>

definition blockEmit :: "func \<Rightarrow> nat \<Rightarrow> instr \<Rightarrow> (val \<times> func) option" where
  "blockEmit fn b i =
     (if b < length (Blocks fn) then
        Some (Reg b (length (Instrs (Blocks fn ! b))) (instrType i),
              fn\<lparr>Blocks := (Blocks fn)[b := (Blocks fn ! b)\<lparr>Instrs := Instrs (Blocks fn ! b) @ [i]\<rparr>]\<rparr>)
      else None)"

definition emit :: "func \<Rightarrow> instr \<Rightarrow> (val \<times> func) option" where
  "emit fn i = (case currentBlock fn of None \<Rightarrow> None | Some b \<Rightarrow> blockEmit fn b i)"

text \<open>The same, for the call sites that drop the result.\<close>

definition emit0 :: "func \<Rightarrow> instr \<Rightarrow> func option" where
  "emit0 fn i = map_option snd (emit fn i)"

definition newBasicBlock :: "func \<Rightarrow> string \<Rightarrow> nat \<times> func" where
  "newBasicBlock fn c =
     (length (Blocks fn),
      fn\<lparr>Blocks := Blocks fn @ [\<lparr>Comment = c, Instrs = [], Preds = [], Succs = []\<rparr>]\<rparr>)"

definition addEdge :: "func \<Rightarrow> nat \<Rightarrow> nat \<Rightarrow> func option" where
  "addEdge fn from to =
     (if from < length (Blocks fn) \<and> to < length (Blocks fn) then
        (let bs1 = (Blocks fn)[from := (Blocks fn ! from)\<lparr>Succs := Succs (Blocks fn ! from) @ [to]\<rparr>];
             bs2 = bs1[to := (bs1 ! to)\<lparr>Preds := Preds (bs1 ! to) @ [from]\<rparr>]
         in Some (fn\<lparr>Blocks := bs2\<rparr>))
      else None)"

text \<open>
  \<^verbatim>\<open>emitJump(fn, b)\<close> terminates the current block with an unconditional transfer,
  records predecessor links, sets \<^verbatim>\<open>fn.currentBlock = nil\<close>.
\<close>

definition emitJump :: "func \<Rightarrow> nat \<Rightarrow> func option" where
  "emitJump fn target =
     (case currentBlock fn of
        None \<Rightarrow> None
      | Some b \<Rightarrow> do {
          fn1 \<leftarrow> emit0 fn Jump;
          fn2 \<leftarrow> addEdge fn1 b target;
          Some (fn2\<lparr>currentBlock := None\<rparr>)
        })"

text \<open>\<^verbatim>\<open>emitIf(fn, cond, t, f)\<close> terminates with a two-way branch.\<close>

definition emitIf :: "func \<Rightarrow> val \<Rightarrow> nat \<Rightarrow> nat \<Rightarrow> func option" where
  "emitIf fn c tblock fblock =
     (case currentBlock fn of
        None \<Rightarrow> None
      | Some b \<Rightarrow> do {
          fn1 \<leftarrow> emit0 fn (If' c);
          fn2 \<leftarrow> addEdge fn1 b tblock;
          fn3 \<leftarrow> addEdge fn2 b fblock;
          Some (fn3\<lparr>currentBlock := None\<rparr>)
        })"

text \<open>\<^verbatim>\<open>emitLoad(fn, addr)\<close> reads through a pointer value; type = pointee.\<close>

definition emitLoad :: "func \<Rightarrow> val \<Rightarrow> (val \<times> func) option" where
  "emitLoad fn addr = emit fn (UnOp MUL addr False (Deref (Type' addr)))"

fun isInterface :: "ty \<Rightarrow> bool" where
  "isInterface TInterface = True"
| "isInterface t = False"

text \<open>
  \<^verbatim>\<open>emitConv(fn, v, dstType)\<close> generates the least-cost conversion: identity,
  ChangeType (same underlying), MakeInterface (concrete to interface), ChangeInterface
  (interface to interface), or Convert (numeric/string); constants are specialised by type.
\<close>

definition emitConv :: "func \<Rightarrow> val \<Rightarrow> ty \<Rightarrow> (val \<times> func) option" where
  "emitConv fn v typ =
     (if Type' v = typ then Some (v, fn)
      else if Underlying (Type' v) = Underlying typ then emit fn (ChangeType v typ)
      else if isInterface (Underlying typ) then
        (if isInterface (Underlying (Type' v)) then emit fn (ChangeInterface v typ)
         else emit fn (MakeInterface v typ))
      else (case v of
              Literal' c t \<Rightarrow> Some (newLiteral c typ, fn)
            | _ \<Rightarrow> emit fn (Convert v typ)))"

text \<open>\<^verbatim>\<open>emitStore(fn, addr, v)\<close> writes; inserts an implicit assignability conversion.\<close>

definition emitStore :: "func \<Rightarrow> val \<Rightarrow> val \<Rightarrow> func option" where
  "emitStore fn addr v = do {
     (v', fn1) \<leftarrow> emitConv fn v (Deref (Type' addr));
     emit0 fn1 (Store addr v')
   }"

text \<open>\<^verbatim>\<open>emitArith\<close>, \<^verbatim>\<open>emitCompare\<close>: binary-op construction.\<close>

definition emitArith :: "func \<Rightarrow> token \<Rightarrow> val \<Rightarrow> val \<Rightarrow> ty \<Rightarrow> (val \<times> func) option" where
  "emitArith fn op x y t = emit fn (BinOp op x y t)"

definition emitCompare :: "func \<Rightarrow> token \<Rightarrow> val \<Rightarrow> val \<Rightarrow> (val \<times> func) option" where
  "emitCompare fn op x y = emit fn (BinOp op x y tBool)"

text \<open>\<^verbatim>\<open>emitExtract(fn, tuple, i, type)\<close> projects one element of a multi-result value.\<close>

definition emitExtract :: "func \<Rightarrow> val \<Rightarrow> nat \<Rightarrow> ty \<Rightarrow> (val \<times> func) option" where
  "emitExtract fn tuple i t = emit fn (Extract tuple i t)"

text \<open>
  \<^verbatim>\<open>emitNew(fn, t, pos)\<close>: heap allocation; \<^verbatim>\<open>addLocal(t)\<close>: stack slot whose
  address may later escape.
\<close>

definition emitNew :: "func \<Rightarrow> ty \<Rightarrow> (val \<times> func) option" where
  "emitNew fn t = emit fn (Alloc (pointer t) True)"

definition addLocal :: "func \<Rightarrow> ty \<Rightarrow> (val \<times> func) option" where
  "addLocal fn t = do {
     (v, fn1) \<leftarrow> emit fn (Alloc (pointer t) False);
     Some (v, fn1\<lparr>Locals := Locals fn1 @ [v]\<rparr>)
   }"

definition addNamedLocal :: "func \<Rightarrow> obj \<Rightarrow> (val \<times> func) option" where
  "addNamedLocal fn ob = do {
     (l, fn1) \<leftarrow> addLocal fn (objType ob);
     Some (l, fn1\<lparr>objects := (ob, l) # objects fn1\<rparr>)
   }"

text \<open>
  Modelled from the spec: \<^verbatim>\<open>Function.lookup\<close> (func.go) is not among the source files.
  The function keeps a mapping from source object identity to the local Value representing it;
  address-taken locals are heap-allocated (the \<open>escaping\<close> bit marks the \<open>Alloc\<close>).
  An object with no entry would have to come from an enclosing function; function literals are
  outside this embedding, so the lookup fails there.
\<close>

definition markHeap :: "func \<Rightarrow> val \<Rightarrow> func option" where
  "markHeap fn v =
     (case v of
        Reg b i t \<Rightarrow>
          (if b < length (Blocks fn) \<and> i < length (Instrs (Blocks fn ! b)) then
             (case Instrs (Blocks fn ! b) ! i of
                Alloc t' h \<Rightarrow>
                  Some (fn\<lparr>Blocks := (Blocks fn)[b := (Blocks fn ! b)
                          \<lparr>Instrs := (Instrs (Blocks fn ! b))[i := Alloc t' True]\<rparr>]\<rparr>)
              | _ \<Rightarrow> None)
           else None)
      | _ \<Rightarrow> None)"

definition fnLookup :: "func \<Rightarrow> obj \<Rightarrow> bool \<Rightarrow> (val \<times> func) option" where
  "fnLookup fn ob escaping =
     (case map_of (objects fn) ob of
        None \<Rightarrow> None
      | Some v \<Rightarrow> (if escaping then do { fn1 \<leftarrow> markHeap fn v; Some (v, fn1) }
                  else Some (v, fn)))"

text \<open>
  Modelled from the spec: the lvalue abstraction (lvalue.go) has three variants,
  \<open>address\<close> (address of a cell), \<open>element\<close> (non-addressable map element) and
  \<open>blank\<close> (drops writes), and offers load, store and typ.
\<close>

datatype lvalue = address val | element val val ty | blank

fun lvalue_load :: "func \<Rightarrow> lvalue \<Rightarrow> (val \<times> func) option" where
  "lvalue_load fn (address a) = emitLoad fn a"
| "lvalue_load fn (element m k t) = emit fn (Lookup m k False t)"
| "lvalue_load fn blank = None"

fun lvalue_store :: "func \<Rightarrow> lvalue \<Rightarrow> val \<Rightarrow> func option" where
  "lvalue_store fn (address a) v = emitStore fn a v"
| "lvalue_store fn (element m k t) v = do {
     (v', fn1) \<leftarrow> emitConv fn v t;
     emit0 fn1 (MapUpdate m k v')
   }"
| "lvalue_store fn blank v = Some fn"

fun lvalue_typ :: "lvalue \<Rightarrow> ty option" where
  "lvalue_typ (address a) = Some (Deref (Type' a))"
| "lvalue_typ (element m k t) = Some t"
| "lvalue_typ blank = None"

section \<open>Syntax trees and the type checker's answers\<close>

text \<open>
  The expression and statement forms of \<^verbatim>\<open>go/ast\<close> that this development follows
  through the builder. Selector expressions, composite literals, function literals, type
  assertions, and the switch, type-switch, select and declaration statements are lowered by
  further cases of the same functions and are not part of the embedding.
\<close>

datatype Expr =
    Ident string
  | BasicLit string
  | ParenExpr Expr
  | UnaryExpr token Expr
  | BinaryExpr Expr token Expr
  | CallExpr Expr "Expr list" bool
  | IndexExpr Expr Expr
  | SliceExpr Expr "Expr option" "Expr option"
  | StarExpr Expr
  | ArrayType "Expr option" Expr

datatype Stmt =
    EmptyStmt
  | ExprStmt Expr
  | SendStmt Expr Expr
  | IncDecStmt Expr token
  | AssignStmt "Expr list" token "Expr list"
  | GoStmt Expr
  | DeferStmt Expr
  | ReturnStmt "Expr list"
  | BranchStmt token "string option"
  | BlockStmt "Stmt list"
  | IfStmt "Stmt option" Expr Stmt "Stmt option"
  | ForStmt "Stmt option" "Expr option" "Stmt option" Stmt
  | RangeStmt Expr "Expr option" token Expr Stmt
  | LabeledStmt string Stmt

text \<open>
  What the builder asks of its surroundings: the type checker's tables of the package
  (\<^verbatim>\<open>TypeOf\<close>, \<^verbatim>\<open>ValueOf\<close>, \<^verbatim>\<open>ObjectOf\<close>, \<^verbatim>\<open>IsType\<close>), the builder's
  index of package-level and universal objects (\<^verbatim>\<open>b.globals\<close>), the program's set of
  built-ins and the signature of a built-in call (\<^verbatim>\<open>builtinCallSignature\<close>, not among the
  source files) and the universe scope (\<^verbatim>\<open>types.Universe.Lookup\<close>). \<^verbatim>\<open>Builder.lookup\<close> also starts the build of a function or global of the
  same package that it finds; that writes to other \<^verbatim>\<open>Function\<close> objects (and, for a
  global, to the package initialiser), not to the function being lowered here, so \<open>lookup\<close>
  is the table alone.
\<close>

record env =
  TypeOf :: "Expr \<Rightarrow> ty"
  ValueOf :: "Expr \<Rightarrow> (constv \<times> ty) option"
  ObjectOf :: "string \<Rightarrow> obj"
  IsType :: "Expr \<Rightarrow> bool"
  globals :: "obj \<Rightarrow> val option"
  Builtins :: "obj \<Rightarrow> bool"
  builtinCallSignature :: "Expr \<Rightarrow> Expr list \<Rightarrow> ty list \<times> bool \<times> ty list"
  Universe :: "string \<Rightarrow> obj"

definition lookup :: "env \<Rightarrow> obj \<Rightarrow> val option" where
  "lookup env ob = globals env ob"

fun tokenString :: "token \<Rightarrow> string" where
  "tokenString LAND = ''&&''"
| "tokenString LOR = ''||''"
| "tokenString t = []"

section \<open>Lowering of expressions\<close>

text \<open>
  The second switch of \<^verbatim>\<open>cond\<close>: constant conditions are dispatched statically with a
  jump, any other condition with a two-way branch.
\<close>

definition cond_dispatch :: "(val \<times> func) option \<Rightarrow> nat \<Rightarrow> nat \<Rightarrow> func option" where
  "cond_dispatch r t f = do {
     (c, fn1) \<leftarrow> r;
     (case c of
        Literal' cv ty \<Rightarrow> do {
          b \<leftarrow> BoolVal cv;
          if b then emitJump fn1 t else emitJump fn1 f
        }
      | _ \<Rightarrow> emitIf fn1 c t f)
   }"

text \<open>The loops of \<^verbatim>\<open>emitCallArgs\<close> that evaluate no expression.\<close>

fun convParams :: "func \<Rightarrow> ty list \<Rightarrow> nat \<Rightarrow> nat \<Rightarrow> nat \<Rightarrow> val list \<Rightarrow> (val list \<times> func) option" where
  "convParams fn ps offset i 0 args = Some (args, fn)"
| "convParams fn ps offset i (Suc k) args =
     (if offset + i < length args \<and> i < length ps then do {
        (v, fn1) \<leftarrow> emitConv fn (args ! (offset + i)) (ps ! i);
        convParams fn1 ps offset (Suc i) k (args[offset + i := v])
      } else None)"

fun storeVarargs :: "func \<Rightarrow> val \<Rightarrow> ty \<Rightarrow> nat \<Rightarrow> val list \<Rightarrow> func option" where
  "storeVarargs fn a vt i [] = Some fn"
| "storeVarargs fn a vt i (arg # rest) = do {
     (iaddr, fn1) \<leftarrow> emit fn (IndexAddr a (intLiteral (int i)) (pointer vt));
     fn2 \<leftarrow> emitStore fn1 iaddr arg;
     storeVarargs fn2 a vt (Suc i) rest
   }"

fun extractAll :: "func \<Rightarrow> val \<Rightarrow> ty list \<Rightarrow> nat \<Rightarrow> val list \<Rightarrow> (val list \<times> func) option" where
  "extractAll fn v [] i args = Some (args, fn)"
| "extractAll fn v (t # ts) i args = do {
     (x, fn1) \<leftarrow> emitExtract fn v i t;
     extractAll fn1 v ts (Suc i) (args @ [x])
   }"

text \<open>\<^verbatim>\<open>fn.Pkg.ValueOf(e)\<close>: the literal of a constant expression, if the checker folded it.\<close>

definition valueOf :: "env \<Rightarrow> Expr \<Rightarrow> val option" where
  "valueOf env e = map_option (\<lambda>(c, t). newLiteral c t) (ValueOf env e)"

text \<open>
  \<^verbatim>\<open>cond\<close>, \<^verbatim>\<open>logicalBinop\<close>, \<^verbatim>\<open>exprN\<close>, \<^verbatim>\<open>builtin\<close>, \<^verbatim>\<open>addr\<close>,
  \<^verbatim>\<open>expr\<close>, \<^verbatim>\<open>setCallFunc\<close>, \<^verbatim>\<open>emitCallArgs\<close> and \<^verbatim>\<open>setCall\<close> of
  builder.go. A function that receives a syntax node in the source receives the node's fields
  here (\<open>logicalBinop\<close>, \<open>setCall\<close>, \<open>emitCallArgs\<close>); the two loops of
  \<open>emitCallArgs\<close> over the argument expressions are \<open>emitCallArgs_fwd\<close> (the call has
  an ellipsis) and \<open>emitCallArgs_eval\<close>.
\<close>

function (sequential)
    cond :: "env \<Rightarrow> func \<Rightarrow> Expr \<Rightarrow> nat \<Rightarrow> nat \<Rightarrow> func option"
and logicalBinop :: "env \<Rightarrow> func \<Rightarrow> Expr \<Rightarrow> token \<Rightarrow> Expr \<Rightarrow> (val \<times> func) option"
and exprN :: "env \<Rightarrow> func \<Rightarrow> Expr \<Rightarrow> (val \<times> func) option"
and builtin :: "env \<Rightarrow> func \<Rightarrow> string \<Rightarrow> Expr list \<Rightarrow> ty \<Rightarrow> (val option \<times> func) option"
and addr :: "env \<Rightarrow> func \<Rightarrow> Expr \<Rightarrow> bool \<Rightarrow> (lvalue \<times> func) option"
and expr :: "env \<Rightarrow> func \<Rightarrow> Expr \<Rightarrow> (val \<times> func) option"
and setCallFunc :: "env \<Rightarrow> func \<Rightarrow> Expr \<Rightarrow> bool \<Rightarrow> (callcommon \<times> func) option"
and emitCallArgs_fwd ::
      "env \<Rightarrow> func \<Rightarrow> ty list \<Rightarrow> bool \<Rightarrow> nat \<Rightarrow> nat \<Rightarrow> Expr list \<Rightarrow> val list \<Rightarrow> (val list \<times> func) option"
and emitCallArgs_eval :: "env \<Rightarrow> func \<Rightarrow> Expr list \<Rightarrow> val list \<Rightarrow> (val list \<times> func) option"
and emitCallArgs ::
      "env \<Rightarrow> func \<Rightarrow> ty list \<times> bool \<times> ty list \<Rightarrow> Expr list \<Rightarrow> bool \<Rightarrow> val list \<Rightarrow> (val list \<times> func) option"
and setCall :: "env \<Rightarrow> func \<Rightarrow> Expr \<Rightarrow> Expr list \<Rightarrow> bool \<Rightarrow> (callcommon \<times> func) option"
where
  "cond env fn (ParenExpr x) t f = cond env fn x t f"
| "cond env fn (BinaryExpr x op y) t f =
     (if op = LAND then
        (let (ltrue, fn1) = newBasicBlock fn ''cond.true'' in do {
           fn2 \<leftarrow> cond env fn1 x ltrue f;
           cond env (fn2\<lparr>currentBlock := Some ltrue\<rparr>) y t f
         })
      else if op = LOR then
        (let (lfalse, fn1) = newBasicBlock fn ''cond.false'' in do {
           fn2 \<leftarrow> cond env fn1 x t lfalse;
           cond env (fn2\<lparr>currentBlock := Some lfalse\<rparr>) y t f
         })
      else cond_dispatch (expr env fn (BinaryExpr x op y)) t f)"
| "cond env fn (UnaryExpr op x) t f =
     (if op = NOT then cond env fn x f t
      else cond_dispatch (expr env fn (UnaryExpr op x)) t f)"
| "cond env fn e t f = cond_dispatch (expr env fn e) t f"

| "logicalBinop env fn x op y =
     (let (rhs, fn1) = newBasicBlock fn ''binop.rhs'';
          (done, fn2) = newBasicBlock fn1 ''binop.done''
      in do {
        (short, fn3) \<leftarrow>
          (if op = LAND then do { f \<leftarrow> cond env fn2 x rhs done; Some (vFalse, f) }
           else if op = LOR then do { f \<leftarrow> cond env fn2 x done rhs; Some (vTrue, f) }
           else None);
        if Preds (Blocks fn3 ! rhs) = [] then
          Some (short, fn3\<lparr>currentBlock := Some done\<rparr>)
        else if Preds (Blocks fn3 ! done) = [] then
          expr env (fn3\<lparr>currentBlock := Some rhs\<rparr>) y
        else do {
          let edges = map (\<lambda>p. short) (Preds (Blocks fn3 ! done));
          (yv, fn4) \<leftarrow> expr env (fn3\<lparr>currentBlock := Some rhs\<rparr>) y;
          fn5 \<leftarrow> emitJump fn4 done;
          blockEmit (fn5\<lparr>currentBlock := Some done\<rparr>) done
            (Phi (edges @ [yv]) (tokenString op) (Type' (hd (edges @ [yv]))))
        }
      })"

| "exprN env fn (ParenExpr x) = exprN env fn x"
| "exprN env fn (CallExpr f args ell) = do {
     (c, fn1) \<leftarrow> setCall env fn f args ell;
     emit fn1 (Call c (TypeOf env (CallExpr f args ell)))
   }"
| "exprN env fn (IndexExpr x i) =
     (case Underlying (TypeOf env x) of
        TMap k v \<Rightarrow> do {
          (xv, fn1) \<leftarrow> expr env fn x;
          (iv, fn2) \<leftarrow> expr env fn1 i;
          (ic, fn3) \<leftarrow> emitConv fn2 iv k;
          emit fn3 (Lookup xv ic True (TTuple [v, tBool]))
        }
      | _ \<Rightarrow> None)"
| "exprN env fn (UnaryExpr op x) =
     (case Underlying (TypeOf env x) of
        TChan el \<Rightarrow> do {
          (xv, fn1) \<leftarrow> expr env fn x;
          emit fn1 (UnOp ARROW xv True (TTuple [el, tBool]))
        }
      | _ \<Rightarrow> None)"
| "exprN env fn e = None"

| "builtin env fn name args typ =
     (if name = ''make'' then
        (case Underlying typ of
           TSlice el \<Rightarrow>
             (case args of
                a0 # n # rest \<Rightarrow> do {
                  (nv, fn1) \<leftarrow> expr env fn n;
                  (mv, fn2) \<leftarrow> (case rest of [m] \<Rightarrow> expr env fn1 m | _ \<Rightarrow> Some (nv, fn1));
                  (v, fn3) \<leftarrow> emit fn2 (MakeSlice nv mv typ);
                  Some (Some v, fn3)
                }
              | _ \<Rightarrow> None)
         | TMap k v \<Rightarrow> do {
             (res, fn1) \<leftarrow>
               (case args of
                  [a0, r] \<Rightarrow> do { (rv, f1) \<leftarrow> expr env fn r; Some (Some rv, f1) }
                | _ \<Rightarrow> Some (None, fn));
             (v, fn2) \<leftarrow> emit fn1 (MakeMap res typ);
             Some (Some v, fn2)
           }
         | TChan el \<Rightarrow> do {
             (sz, fn1) \<leftarrow>
               (case args of
                  [a0, r] \<Rightarrow> expr env fn r
                | _ \<Rightarrow> Some (vZero, fn));
             (v, fn2) \<leftarrow> emit fn1 (MakeChan sz typ);
             Some (Some v, fn2)
           }
         | _ \<Rightarrow> Some (None, fn))
      else if name = ''new'' then do {
        (v, fn1) \<leftarrow> emitNew fn (Deref (Underlying typ));
        Some (Some v, fn1)
      }
      else if name = ''len'' \<or> name = ''cap'' then
        (case args of
           [] \<Rightarrow> None
         | a # as \<Rightarrow>
             (case Underlying (Deref (TypeOf env a)) of
                TArray el n \<Rightarrow> do {
                  (x, fn1) \<leftarrow> expr env fn a;
                  Some (Some (intLiteral n), fn1)
                }
              | _ \<Rightarrow> Some (None, fn)))
      else if name = ''panic'' then
        (case args of
           [] \<Rightarrow> None
         | a # as \<Rightarrow> do {
             (x, fn1) \<leftarrow> expr env fn a;
             (xc, fn2) \<leftarrow> emitConv fn1 x tEface;
             fn3 \<leftarrow> emit0 fn2 (Panic xc);
             (let (u, fn4) = newBasicBlock fn3 ''unreachable''
              in Some (Some vFalse, fn4\<lparr>currentBlock := Some u\<rparr>))
           })
      else Some (None, fn))"

| "addr env fn (Ident n) escaping =
     (let ob = ObjectOf env n in
      case lookup env ob of
        Some v \<Rightarrow> Some (address v, fn)
      | None \<Rightarrow> do { (v, fn1) \<leftarrow> fnLookup fn ob escaping; Some (address v, fn1) })"
| "addr env fn (ParenExpr x) escaping = addr env fn x escaping"
| "addr env fn (IndexExpr x i) escaping =
     (case Underlying (TypeOf env x) of
        TArray el n \<Rightarrow> do {
          (lv, fn1) \<leftarrow> addr env fn x escaping;
          (case lv of
             address xv \<Rightarrow> do {
               (iv, fn2) \<leftarrow> expr env fn1 i;
               (ic, fn3) \<leftarrow> emitConv fn2 iv tInt;
               (a, fn4) \<leftarrow> emit fn3 (IndexAddr xv ic (pointer el));
               Some (address a, fn4)
             }
           | _ \<Rightarrow> None)
        }
      | TPointer t \<Rightarrow> do {
          (xv, fn1) \<leftarrow> expr env fn x;
          (case Underlying t of
             TArray el n \<Rightarrow> do {
               (iv, fn2) \<leftarrow> expr env fn1 i;
               (ic, fn3) \<leftarrow> emitConv fn2 iv tInt;
               (a, fn4) \<leftarrow> emit fn3 (IndexAddr xv ic (pointer el));
               Some (address a, fn4)
             }
           | _ \<Rightarrow> None)
        }
      | TSlice el \<Rightarrow> do {
          (xv, fn1) \<leftarrow> expr env fn x;
          (iv, fn2) \<leftarrow> expr env fn1 i;
          (ic, fn3) \<leftarrow> emitConv fn2 iv tInt;
          (a, fn4) \<leftarrow> emit fn3 (IndexAddr xv ic (pointer el));
          Some (address a, fn4)
        }
      | TMap k v \<Rightarrow> do {
          (m, fn1) \<leftarrow> expr env fn x;
          (iv, fn2) \<leftarrow> expr env fn1 i;
          (kc, fn3) \<leftarrow> emitConv fn2 iv k;
          Some (element m kc v, fn3)
        }
      | _ \<Rightarrow> None)"
| "addr env fn (StarExpr x) escaping = do {
     (v, fn1) \<leftarrow> expr env fn x;
     Some (address v, fn1)
   }"
| "addr env fn e escaping = None"

| "expr env fn (BasicLit s) =
     (case valueOf env (BasicLit s) of
        Some lit \<Rightarrow> Some (lit, fn)
      | None \<Rightarrow> None)"
| "expr env fn (ParenExpr x) =
     (case valueOf env (ParenExpr x) of
        Some lit \<Rightarrow> Some (lit, fn)
      | None \<Rightarrow> expr env fn x)"
| "expr env fn (CallExpr f args ell) =
     (case valueOf env (CallExpr f args ell) of
        Some lit \<Rightarrow> Some (lit, fn)
      | None \<Rightarrow>
         (let typ = TypeOf env (CallExpr f args ell) in
          if IsType env f then
            (case args of
               [] \<Rightarrow> None
             | a # as \<Rightarrow> do { (x, fn1) \<leftarrow> expr env fn a; emitConv fn1 x typ })
          else do {
            (r, fn1) \<leftarrow>
              (case f of
                 Ident name \<Rightarrow>
                   (if Builtins env (ObjectOf env name) then builtin env fn name args typ
                    else Some (None, fn))
               | _ \<Rightarrow> Some (None, fn));
            (case r of
               Some v \<Rightarrow> Some (v, fn1)
             | None \<Rightarrow> do {
                 (c, fn2) \<leftarrow> setCall env fn1 f args ell;
                 emit fn2 (Call c typ)
               })
          }))"
| "expr env fn (UnaryExpr op x) =
     (case valueOf env (UnaryExpr op x) of
        Some lit \<Rightarrow> Some (lit, fn)
      | None \<Rightarrow>
         (if op = AND then do {
            (lv, fn1) \<leftarrow> addr env fn x True;
            (case lv of address a \<Rightarrow> Some (a, fn1) | _ \<Rightarrow> None)
          }
          else if op = ADD then expr env fn x
          else if op = NOT \<or> op = ARROW \<or> op = SUB \<or> op = XOR then do {
            (xv, fn1) \<leftarrow> expr env fn x;
            emit fn1 (UnOp op xv False (TypeOf env (UnaryExpr op x)))
          }
          else None))"
| "expr env fn (BinaryExpr x op y) =
     (case valueOf env (BinaryExpr x op y) of
        Some lit \<Rightarrow> Some (lit, fn)
      | None \<Rightarrow>
         (if op = LAND \<or> op = LOR then logicalBinop env fn x op y
          else if op \<in> {SHL, SHR, ADD, SUB, MUL, QUO, REM, AND, OR, XOR, AND_NOT} then do {
            (xv, fn1) \<leftarrow> expr env fn x;
            (yv, fn2) \<leftarrow> expr env fn1 y;
            emitArith fn2 op xv yv (TypeOf env (BinaryExpr x op y))
          }
          else if op \<in> {EQL, NEQ, GTR, LSS, LEQ, GEQ} then do {
            (xv, fn1) \<leftarrow> expr env fn x;
            (yv, fn2) \<leftarrow> expr env fn1 y;
            emitCompare fn2 op xv yv
          }
          else None))"
| "expr env fn (SliceExpr x lo hi) =
     (case valueOf env (SliceExpr x lo hi) of
        Some lit \<Rightarrow> Some (lit, fn)
      | None \<Rightarrow> do {
          (xv, fn1) \<leftarrow>
            (case Underlying (TypeOf env x) of
               TArray el n \<Rightarrow> do {
                 (lv, f1) \<leftarrow> addr env fn x True;
                 (case lv of address a \<Rightarrow> Some (a, f1) | _ \<Rightarrow> None)
               }
             | TBasic k \<Rightarrow> expr env fn x
             | TSlice el \<Rightarrow> expr env fn x
             | TPointer el \<Rightarrow> expr env fn x
             | _ \<Rightarrow> None);
          (high, fn2) \<leftarrow>
            (case hi of
               None \<Rightarrow> Some (None, fn1)
             | Some h \<Rightarrow> do { (hv, f2) \<leftarrow> expr env fn1 h; Some (Some hv, f2) });
          (low, fn3) \<leftarrow>
            (case lo of
               None \<Rightarrow> Some (None, fn2)
             | Some l \<Rightarrow> do { (lv, f3) \<leftarrow> expr env fn2 l; Some (Some lv, f3) });
          emit fn3 (Slice xv low high (TypeOf env (SliceExpr x lo hi)))
        })"
| "expr env fn (Ident n) =
     (case valueOf env (Ident n) of
        Some lit \<Rightarrow> Some (lit, fn)
      | None \<Rightarrow>
         (let ob = ObjectOf env n in
          case lookup env ob of
            Some v \<Rightarrow> (if objKind ob = Var then emitLoad fn v else Some (v, fn))
          | None \<Rightarrow> do { (a, fn1) \<leftarrow> fnLookup fn ob False; emitLoad fn1 a }))"
| "expr env fn (IndexExpr x i) =
     (case valueOf env (IndexExpr x i) of
        Some lit \<Rightarrow> Some (lit, fn)
      | None \<Rightarrow>
         (case Underlying (TypeOf env x) of
            TArray el n \<Rightarrow> do {
              (xv, fn1) \<leftarrow> expr env fn x;
              (iv, fn2) \<leftarrow> expr env fn1 i;
              (ic, fn3) \<leftarrow> emitConv fn2 iv tInt;
              emit fn3 (Index xv ic el)
            }
          | TMap k v \<Rightarrow> do {
              (xv, fn1) \<leftarrow> expr env fn x;
              (iv, fn2) \<leftarrow> expr env fn1 i;
              (ic, fn3) \<leftarrow> emitConv fn2 iv k;
              emit fn3 (Lookup xv ic False v)
            }
          | TBasic k \<Rightarrow> do {
              (xv, fn1) \<leftarrow> expr env fn x;
              (iv, fn2) \<leftarrow> expr env fn1 i;
              emit fn2 (Lookup xv iv False tByte)
            }
          | TSlice el \<Rightarrow> do {
              (lv, fn1) \<leftarrow> addr env fn (IndexExpr x i) False;
              lvalue_load fn1 lv
            }
          | TPointer el \<Rightarrow> do {
              (lv, fn1) \<leftarrow> addr env fn (IndexExpr x i) False;
              lvalue_load fn1 lv
            }
          | _ \<Rightarrow> None))"
| "expr env fn (StarExpr x) =
     (case valueOf env (StarExpr x) of
        Some lit \<Rightarrow> Some (lit, fn)
      | None \<Rightarrow> do {
          (lv, fn1) \<leftarrow> addr env fn (StarExpr x) False;
          lvalue_load fn1 lv
        })"
| "expr env fn (ArrayType l el) =
     (case valueOf env (ArrayType l el) of
        Some lit \<Rightarrow> Some (lit, fn)
      | None \<Rightarrow> None)"

| "setCallFunc env fn f ell = do {
     (fv, fn1) \<leftarrow> expr env fn f;
     Some (CallCommon (Some fv) [] ell, fn1)
   }"

| "emitCallArgs_fwd env fn ps variadic n i [] acc = Some (acc, fn)"
| "emitCallArgs_fwd env fn ps variadic n i (arg # rest) acc =
     (if i < length ps then do {
        (v, fn1) \<leftarrow> expr env fn arg;
        (c, fn2) \<leftarrow> emitConv fn1 v (if variadic \<and> Suc i = n then TSlice (ps ! i) else ps ! i);
        emitCallArgs_fwd env fn2 ps variadic n (Suc i) rest (acc @ [c])
      } else None)"

| "emitCallArgs_eval env fn [] acc = Some (acc, fn)"
| "emitCallArgs_eval env fn (arg # rest) acc = do {
     (v, fn1) \<leftarrow> expr env fn arg;
     (acc1, fn2) \<leftarrow>
       (case Type' v of
          TTuple ts \<Rightarrow> extractAll fn1 v ts 0 acc
        | _ \<Rightarrow> Some (acc @ [v], fn1));
     emitCallArgs_eval env fn2 rest acc1
   }"

| "emitCallArgs env fn sig args ell acc0 =
     (case sig of (ps, variadic, rs) \<Rightarrow>
      if ell then emitCallArgs_fwd env fn ps variadic (length args) 0 args acc0
      else do {
        (a1, fn1) \<leftarrow> emitCallArgs_eval env fn args acc0;
        (if variadic \<and> ps = [] then None
         else do {
           (a2, fn2) \<leftarrow> convParams fn1 ps (length acc0) 0
                          (if variadic then length ps - 1 else length ps) a1;
           (if variadic then
              (let np = length ps - 1; offset = length acc0 in
               if offset + np \<le> length a2 then
                 (let varargs = drop (offset + np) a2; vt = ps ! np; st = TSlice vt in
                  if varargs = [] then Some (a2 @ [nilLiteral st], fn2)
                  else do {
                    (a, fn3) \<leftarrow> emitNew fn2 (TArray vt (int (length varargs)));
                    fn4 \<leftarrow> storeVarargs fn3 a vt 0 varargs;
                    (s, fn5) \<leftarrow> emit fn4 (Slice a None None st);
                    Some (take (offset + np) a2 @ [s], fn5)
                  })
               else None)
            else Some (a2, fn2))
         })
      })"

| "setCall env fn f args ell = do {
     (c, fn1) \<leftarrow> setCallFunc env fn f ell;
     (as, fn2) \<leftarrow> emitCallArgs env fn1
        (case Underlying (TypeOf env f) of
           TSignature ps v rs \<Rightarrow> (ps, v, rs)
         | _ \<Rightarrow> builtinCallSignature env f args)
        args ell (Args c);
     Some (CallCommon (Func c) as (HasEllipsis c), fn2)
   }"
  by pat_completeness auto

termination
  by (relation "measure (case_sum
    (case_sum
      (case_sum (\<lambda>(env, fn, e, t, f). 3 * size e + 2)
                (\<lambda>(env, fn, x, op, y). 3 * (size x + size y) + 3))
      (case_sum (\<lambda>(env, fn, e). 3 * size e + 2)
        (case_sum (\<lambda>(env, fn, name, args, typ). 3 * size_list size args + 1)
                  (\<lambda>(env, fn, e, esc). 3 * size e))))
    (case_sum
      (case_sum (\<lambda>(env, fn, e). 3 * size e + 1)
        (case_sum (\<lambda>(env, fn, f, ell). 3 * size f + 2)
                  (\<lambda>(env, fn, ps, v, n, i, args, acc). 3 * size_list size args + 1)))
      (case_sum (\<lambda>(env, fn, args, acc). 3 * size_list size args + 1)
        (case_sum (\<lambda>(env, fn, sig, args, ell, acc). 3 * size_list size args + 2)
                  (\<lambda>(env, fn, f, args, ell). 3 * (size f + size_list size args) + 3)))))")
     auto


section \<open>Lowering of statements\<close>

text \<open>
  Modelled from the spec: \<^verbatim>\<open>Function.labelledBlock\<close> and \<^verbatim>\<open>Function.startBody\<close>
  (func.go) and \<^verbatim>\<open>isBlankIdent\<close> (util.go) are not among the source files. Named labels
  are lazily resolved to blocks: the first use of a label creates the block bound to it, and all
  \<^verbatim>\<open>goto\<close>, \<^verbatim>\<open>break L\<close> and \<^verbatim>\<open>continue L\<close> resolve to its record. Building a
  body starts with the creation of the entry block.
\<close>

definition labelledBlock :: "func \<Rightarrow> string \<Rightarrow> lblock \<times> func" where
  "labelledBlock fn label =
     (case map_of (lblocks fn) label of
        Some lb \<Rightarrow> (lb, fn)
      | None \<Rightarrow>
          (let (b, fn1) = newBasicBlock fn label;
               lb = \<lparr>lb_goto = b, lb_break = None, lb_continue = None\<rparr>
           in (lb, fn1\<lparr>lblocks := (label, lb) # lblocks fn1\<rparr>)))"

definition startBody :: "func \<Rightarrow> func" where
  "startBody fn =
     (let (b, fn1) = newBasicBlock fn ''entry''
      in fn1\<lparr>currentBlock := Some b, objects := []\<rparr>)"

fun isBlankIdent :: "Expr \<Rightarrow> bool" where
  "isBlankIdent (Ident name) = (name = ''_'')"
| "isBlankIdent e = False"

text \<open>
  The assignments \<^verbatim>\<open>label._break = done\<close> and \<^verbatim>\<open>label._continue = cont\<close> on the
  record of the statement's label, if it has one.
\<close>

definition setLabelTargets :: "func \<Rightarrow> string option \<Rightarrow> nat \<Rightarrow> nat \<Rightarrow> func" where
  "setLabelTargets fn label brk cont =
     (case label of
        None \<Rightarrow> fn
      | Some l \<Rightarrow>
          fn\<lparr>lblocks := map (\<lambda>(n, lb). if n = l
                                then (n, lb\<lparr>lb_break := Some brk, lb_continue := Some cont\<rparr>)
                                else (n, lb)) (lblocks fn)\<rparr>)"

definition pushTargets :: "func \<Rightarrow> targets \<Rightarrow> func" where
  "pushTargets fn t = fn\<lparr>targetStack := t # targetStack fn\<rparr>"

text \<open>\<^verbatim>\<open>fn.targets = fn.targets.tail\<close>.\<close>

definition popTargets :: "func \<Rightarrow> func option" where
  "popTargets fn =
     (case targetStack fn of
        [] \<Rightarrow> None
      | t # ts \<Rightarrow> Some (fn\<lparr>targetStack := ts\<rparr>))"

text \<open>
  The two searches of the target stack: the innermost frame that has the wanted target
  (\<^verbatim>\<open>break\<close>, \<^verbatim>\<open>continue\<close>, \<^verbatim>\<open>fallthrough\<close>), and the outermost frame that has a
  break target (a \<^verbatim>\<open>return\<close> in an init block).
\<close>

fun firstTarget :: "(targets \<Rightarrow> nat option) \<Rightarrow> targets list \<Rightarrow> nat option" where
  "firstTarget sel [] = None"
| "firstTarget sel (t # ts) =
     (case sel t of Some b \<Rightarrow> Some b | None \<Rightarrow> firstTarget sel ts)"

fun outermostBreak :: "targets list \<Rightarrow> nat option \<Rightarrow> nat option" where
  "outermostBreak [] block = block"
| "outermostBreak (t # ts) block =
     outermostBreak ts (case t_break t of Some b \<Rightarrow> Some b | None \<Rightarrow> block)"

text \<open>
  \<^verbatim>\<open>rangeIndexed\<close>, \<^verbatim>\<open>rangeIter\<close> and \<^verbatim>\<open>rangeChan\<close> emit the header of a range
  loop and return the key, the value (if any), and the loop and done blocks.
\<close>

definition rangeIndexed ::
    "env \<Rightarrow> func \<Rightarrow> val \<Rightarrow> ty option \<Rightarrow> ((val option \<times> val option \<times> nat \<times> nat) \<times> func) option" where
  "rangeIndexed env fn x tv = do {
     (length', fn1) \<leftarrow>
       (case Deref (Type' x) of
          TArray el n \<Rightarrow> Some (intLiteral n, fn)
        | _ \<Rightarrow> emit fn (Call (CallCommon (globals env (Universe env ''len'')) [x] False) tInt));
     (index, fn2) \<leftarrow> addLocal fn1 tInt;
     fn3 \<leftarrow> emitStore fn2 index (intLiteral (- 1));
     (let (loop, fn4) = newBasicBlock fn3 ''rangeindex.loop'' in do {
        fn5 \<leftarrow> emitJump fn4 loop;
        (ld, fn6) \<leftarrow> emitLoad (fn5\<lparr>currentBlock := Some loop\<rparr>) index;
        (incr, fn7) \<leftarrow> emit fn6 (BinOp ADD ld vOne tInt);
        fn8 \<leftarrow> emitStore fn7 index incr;
        (let (body, fn9) = newBasicBlock fn8 ''rangeindex.body'';
             (done, fn10) = newBasicBlock fn9 ''rangeindex.done''
         in do {
           (c, fn11) \<leftarrow> emitCompare fn10 LSS incr length';
           fn12 \<leftarrow> emitIf fn11 c body done;
           (k, fn13) \<leftarrow> emitLoad (fn12\<lparr>currentBlock := Some body\<rparr>) index;
           (v, fn14) \<leftarrow>
             (case tv of
                None \<Rightarrow> Some (None, fn13)
              | Some t' \<Rightarrow>
                  (case Underlying (Type' x) of
                     TArray el n \<Rightarrow> do {
                       (r, f) \<leftarrow> emit fn13 (Index x k el);
                       Some (Some r, f)
                     }
                   | TPointer t \<Rightarrow>
                       (case t of
                          TArray el n \<Rightarrow> do {
                            (a, f) \<leftarrow> emit fn13 (IndexAddr x k (pointer el));
                            (r, f') \<leftarrow> emitLoad f a;
                            Some (Some r, f')
                          }
                        | _ \<Rightarrow> None)
                   | TSlice el \<Rightarrow> do {
                       (a, f) \<leftarrow> emit fn13 (IndexAddr x k (pointer el));
                       (r, f') \<leftarrow> emitLoad f a;
                       Some (Some r, f')
                     }
                   | _ \<Rightarrow> None));
           Some ((Some k, v, loop, done), fn14)
         })
      })
   }"

definition rangeIter ::
    "func \<Rightarrow> val \<Rightarrow> ty option \<Rightarrow> ty option \<Rightarrow> ((val option \<times> val option \<times> nat \<times> nat) \<times> func) option" where
  "rangeIter fn x tk0 tv0 =
     (let tk = (case tk0 of None \<Rightarrow> tInvalid | Some t \<Rightarrow> t);
          tv = (case tv0 of None \<Rightarrow> tInvalid | Some t \<Rightarrow> t)
      in do {
        (it, fn1) \<leftarrow> emit fn (Range' x tRangeIter);
        (let (loop, fn2) = newBasicBlock fn1 ''rangeiter.loop'' in do {
           fn3 \<leftarrow> emitJump fn2 loop;
           (okv, fn4) \<leftarrow> emit (fn3\<lparr>currentBlock := Some loop\<rparr>)
               (Next it (case Underlying (Type' x) of TBasic k \<Rightarrow> True | _ \<Rightarrow> False)
                  (TTuple [tBool, tk, tv]));
           (let (body, fn5) = newBasicBlock fn4 ''rangeiter.body'';
                (done, fn6) = newBasicBlock fn5 ''rangeiter.done''
            in do {
              (ok, fn7) \<leftarrow> emitExtract fn6 okv 0 tBool;
              fn8 \<leftarrow> emitIf fn7 ok body done;
              (k, fn9) \<leftarrow>
                (if tk \<noteq> tInvalid then do {
                   (r, f) \<leftarrow> emitExtract (fn8\<lparr>currentBlock := Some body\<rparr>) okv 1 tk;
                   Some (Some r, f)
                 } else Some (None, fn8\<lparr>currentBlock := Some body\<rparr>));
              (v, fn10) \<leftarrow>
                (if tv \<noteq> tInvalid then do {
                   (r, f) \<leftarrow> emitExtract fn9 okv 2 tv;
                   Some (Some r, f)
                 } else Some (None, fn9));
              Some ((k, v, loop, done), fn10)
            })
         })
      })"

definition rangeChan ::
    "func \<Rightarrow> val \<Rightarrow> ty option \<Rightarrow> ((val option \<times> val option \<times> nat \<times> nat) \<times> func) option" where
  "rangeChan fn x tk =
     (let (loop, fn1) = newBasicBlock fn ''rangechan.loop'' in do {
        fn2 \<leftarrow> emitJump fn1 loop;
        (ko, fn3) \<leftarrow> emit (fn2\<lparr>currentBlock := Some loop\<rparr>)
            (UnOp ARROW x True (TTuple [(case tk of None \<Rightarrow> tInvalid | Some t \<Rightarrow> t), tBool]));
        (let (body, fn4) = newBasicBlock fn3 ''rangechan.body'';
             (done, fn5) = newBasicBlock fn4 ''rangechan.done''
         in do {
           (ok, fn6) \<leftarrow> emitExtract fn5 ko 1 tBool;
           fn7 \<leftarrow> emitIf fn6 ok body done;
           (k, fn8) \<leftarrow>
             (case tk of
                None \<Rightarrow> Some (None, fn7\<lparr>currentBlock := Some body\<rparr>)
              | Some t \<Rightarrow> do {
                  (r, f) \<leftarrow> emitExtract (fn7\<lparr>currentBlock := Some body\<rparr>) ko 0 t;
                  Some (Some r, f)
                });
           Some ((k, None, loop, done), fn8)
         })
      })"

text \<open>
  \<^verbatim>\<open>exprInPlace\<close> on the expression forms of this embedding, none of which is a composite
  literal: \<^verbatim>\<open>loc.store(fn, b.expr(fn, e))\<close>.
\<close>

definition exprInPlace :: "env \<Rightarrow> func \<Rightarrow> lvalue \<Rightarrow> Expr \<Rightarrow> func option" where
  "exprInPlace env fn loc e = do {
     (v, fn1) \<leftarrow> expr env fn e;
     lvalue_store fn1 loc v
   }"

text \<open>\<^verbatim>\<open>assignOp\<close> emits code to perform \<^verbatim>\<open>loc += incr\<close> or \<^verbatim>\<open>loc -= incr\<close>.\<close>

definition assignOp :: "func \<Rightarrow> lvalue \<Rightarrow> val \<Rightarrow> token \<Rightarrow> func option" where
  "assignOp fn loc incr op = do {
     (oldv, fn1) \<leftarrow> lvalue_load fn loc;
     (c, fn2) \<leftarrow> emitConv fn1 incr (Type' oldv);
     t \<leftarrow> lvalue_typ loc;
     (r, fn3) \<leftarrow> emitArith fn2 op oldv c t;
     lvalue_store fn3 loc r
   }"

text \<open>\<^verbatim>\<open>s.Tok + token.ADD - token.ADD_ASSIGN\<close> on the assignment operators.\<close>

fun assignToken :: "token \<Rightarrow> token option" where
  "assignToken ADD_ASSIGN = Some ADD"
| "assignToken SUB_ASSIGN = Some SUB"
| "assignToken MUL_ASSIGN = Some MUL"
| "assignToken QUO_ASSIGN = Some QUO"
| "assignToken REM_ASSIGN = Some REM"
| "assignToken AND_ASSIGN = Some AND"
| "assignToken OR_ASSIGN = Some OR"
| "assignToken XOR_ASSIGN = Some XOR"
| "assignToken SHL_ASSIGN = Some SHL"
| "assignToken SHR_ASSIGN = Some SHR"
| "assignToken AND_NOT_ASSIGN = Some AND_NOT"
| "assignToken t = None"

text \<open>The loops of \<^verbatim>\<open>assignStmt\<close>.\<close>

fun assignLvals :: "env \<Rightarrow> func \<Rightarrow> Expr list \<Rightarrow> bool \<Rightarrow> lvalue list \<Rightarrow> (lvalue list \<times> func) option" where
  "assignLvals env fn [] isDef lvals = Some (lvals, fn)"
| "assignLvals env fn (lhs # rest) isDef lvals =
     (if isBlankIdent lhs then assignLvals env fn rest isDef (lvals @ [blank])
      else do {
        fn1 \<leftarrow>
          (if isDef then
             (case lhs of
                Ident name \<Rightarrow>
                  (case map_of (objects fn) (ObjectOf env name) of
                     Some v \<Rightarrow> Some fn
                   | None \<Rightarrow> map_option snd (addNamedLocal fn (ObjectOf env name)))
              | _ \<Rightarrow> None)
           else Some fn);
        (lval, fn2) \<leftarrow> addr env fn1 lhs False;
        assignLvals env fn2 rest isDef (lvals @ [lval])
      })"

fun exprList :: "env \<Rightarrow> func \<Rightarrow> Expr list \<Rightarrow> val list \<Rightarrow> (val list \<times> func) option" where
  "exprList env fn [] rvals = Some (rvals, fn)"
| "exprList env fn (rval # rest) rvals = do {
     (v, fn1) \<leftarrow> expr env fn rval;
     exprList env fn1 rest (rvals @ [v])
   }"

fun storeAll :: "func \<Rightarrow> lvalue list \<Rightarrow> val list \<Rightarrow> func option" where
  "storeAll fn [] rvals = Some fn"
| "storeAll fn (lval # rest) rvals =
     (case rvals of
        [] \<Rightarrow> None
      | v # vs \<Rightarrow> do { fn1 \<leftarrow> lvalue_store fn lval v; storeAll fn1 rest vs })"

fun storeExtracts :: "func \<Rightarrow> lvalue list \<Rightarrow> val \<Rightarrow> ty list \<Rightarrow> nat \<Rightarrow> func option" where
  "storeExtracts fn [] tuple ts i = Some fn"
| "storeExtracts fn (lval # rest) tuple ts i =
     (if i < length ts then do {
        (x, fn1) \<leftarrow> emitExtract fn tuple i (ts ! i);
        fn2 \<leftarrow> lvalue_store fn1 lval x;
        storeExtracts fn2 rest tuple ts (Suc i)
      } else None)"

definition assignStmt :: "env \<Rightarrow> func \<Rightarrow> Expr list \<Rightarrow> Expr list \<Rightarrow> bool \<Rightarrow> func option" where
  "assignStmt env fn lhss rhss isDef = do {
     (lvals, fn1) \<leftarrow> assignLvals env fn lhss isDef [];
     (if length lhss = length rhss then
        (if length lhss = 1 then exprInPlace env fn1 (hd lvals) (hd rhss)
         else do {
           (rvals, fn2) \<leftarrow> exprList env fn1 rhss [];
           storeAll fn2 lvals rvals
         })
      else
        (case rhss of
           [] \<Rightarrow> None
         | r # rs \<Rightarrow> do {
             (tuple, fn2) \<leftarrow> exprN env fn1 r;
             (case Type' tuple of
                TTuple ts \<Rightarrow> storeExtracts fn2 lvals tuple ts 0
              | _ \<Rightarrow> None)
           }))
   }"

text \<open>
  The switch on \<^verbatim>\<open>s.Tok\<close> of the \<^verbatim>\<open>BranchStmt\<close> case of \<^verbatim>\<open>stmt\<close>: the
  block the branch goes to, \<open>None\<close> when there is none (the branch is then ignored as
  illegal). A \<^verbatim>\<open>goto\<close> always has a label.
\<close>

definition branchBlock :: "func \<Rightarrow> token \<Rightarrow> string option \<Rightarrow> nat option \<times> func" where
  "branchBlock fn tok lbl =
     (if tok = BREAK then
        (case lbl of
           Some l \<Rightarrow> (let (lb, f) = labelledBlock fn l in (lb_break lb, f))
         | None \<Rightarrow> (firstTarget t_break (targetStack fn), fn))
      else if tok = CONTINUE then
        (case lbl of
           Some l \<Rightarrow> (let (lb, f) = labelledBlock fn l in (lb_continue lb, f))
         | None \<Rightarrow> (firstTarget t_continue (targetStack fn), fn))
      else if tok = FALLTHROUGH then (firstTarget t_fallthrough (targetStack fn), fn)
      else if tok = GOTO then
        (case lbl of
           Some l \<Rightarrow> (let (lb, f) = labelledBlock fn l in (Some (lb_goto lb), f))
         | None \<Rightarrow> (None, fn))
      else (None, fn))"

text \<open>The loops of the \<^verbatim>\<open>ReturnStmt\<close> case of \<^verbatim>\<open>stmt\<close>.\<close>

fun returnExtracts :: "func \<Rightarrow> val \<Rightarrow> ty list \<Rightarrow> nat \<Rightarrow> val list \<Rightarrow> (val list \<times> func) option" where
  "returnExtracts fn tuple [] i results = Some (results, fn)"
| "returnExtracts fn tuple (t # ts) i results =
     (if i < length (SigResults fn) then do {
        (x, fn1) \<leftarrow> emitExtract fn tuple i t;
        (c, fn2) \<leftarrow> emitConv fn1 x (SigResults fn ! i);
        returnExtracts fn2 tuple ts (Suc i) (results @ [c])
      } else None)"

fun returnExprs :: "env \<Rightarrow> func \<Rightarrow> Expr list \<Rightarrow> nat \<Rightarrow> val list \<Rightarrow> (val list \<times> func) option" where
  "returnExprs env fn [] i results = Some (results, fn)"
| "returnExprs env fn (r # rs) i results = do {
     (x, fn1) \<leftarrow> expr env fn r;
     (if i < length (SigResults fn) then do {
        (v, fn2) \<leftarrow> emitConv fn1 x (SigResults fn ! i);
        returnExprs env fn2 rs (Suc i) (results @ [v])
      } else None)
   }"

fun storeResults :: "func \<Rightarrow> val list \<Rightarrow> val list \<Rightarrow> func option" where
  "storeResults fn nrs [] = Some fn"
| "storeResults fn nrs (r # rs) =
     (case nrs of
        [] \<Rightarrow> None
      | nr # nrs' \<Rightarrow> do { fn1 \<leftarrow> emitStore fn nr r; storeResults fn1 nrs' rs })"

fun loadResults :: "func \<Rightarrow> val list \<Rightarrow> val list \<Rightarrow> (val list \<times> func) option" where
  "loadResults fn [] results = Some (results, fn)"
| "loadResults fn (nr # nrs) results = do {
     (v, fn1) \<leftarrow> emitLoad fn nr;
     loadResults fn1 nrs (results @ [v])
   }"

text \<open>
  \<^verbatim>\<open>stmt\<close> lowers a statement; its local variable \<^verbatim>\<open>label\<close>, set by the
  \<^verbatim>\<open>LabeledStmt\<close> case before it jumps back to \<^verbatim>\<open>start\<close>, is the second argument
  (the name of the label). \<^verbatim>\<open>forStmt\<close> and \<^verbatim>\<open>rangeStmt\<close> are the bodies of the
  \<open>ForStmt\<close> and \<open>RangeStmt\<close> equations.
\<close>

function (sequential)
    stmt :: "env \<Rightarrow> string option \<Rightarrow> func \<Rightarrow> Stmt \<Rightarrow> func option"
and stmtList :: "env \<Rightarrow> func \<Rightarrow> Stmt list \<Rightarrow> func option"
where
  "stmt env label fn EmptyStmt = Some fn"
| "stmt env label fn (LabeledStmt l s) =
     (let (lb, fn1) = labelledBlock fn l in do {
        fn2 \<leftarrow> emitJump fn1 (lb_goto lb);
        stmt env (Some l) (fn2\<lparr>currentBlock := Some (lb_goto lb)\<rparr>) s
      })"
| "stmt env label fn (ExprStmt x) = map_option snd (expr env fn x)"
| "stmt env label fn (SendStmt ch v) = do {
     (c, fn1) \<leftarrow> expr env fn ch;
     (x, fn2) \<leftarrow> expr env fn1 v;
     (case Underlying (TypeOf env ch) of
        TChan el \<Rightarrow> do {
          (xc, fn3) \<leftarrow> emitConv fn2 x el;
          emit0 fn3 (Send c xc)
        }
      | _ \<Rightarrow> None)
   }"
| "stmt env label fn (IncDecStmt x tok) = do {
     (loc, fn1) \<leftarrow> addr env fn x False;
     assignOp fn1 loc vOne (if tok = DEC then SUB else ADD)
   }"
| "stmt env label fn (AssignStmt lhs tok rhs) =
     (if tok = ASSIGN \<or> tok = DEFINE then assignStmt env fn lhs rhs (tok = DEFINE)
      else do {
        op \<leftarrow> assignToken tok;
        (case lhs of
           [] \<Rightarrow> None
         | l # ls \<Rightarrow> do {
             (loc, fn1) \<leftarrow> addr env fn l False;
             (case rhs of
                [] \<Rightarrow> None
              | r # rs \<Rightarrow> do {
                  (v, fn2) \<leftarrow> expr env fn1 r;
                  assignOp fn2 loc v op
                })
           })
      })"
| "stmt env label fn (GoStmt call) =
     (case call of
        CallExpr f args ell \<Rightarrow> do {
          (c, fn1) \<leftarrow> setCall env fn f args ell;
          emit0 fn1 (Go c)
        }
      | _ \<Rightarrow> None)"
| "stmt env label fn (DeferStmt call) =
     (case call of
        CallExpr f args ell \<Rightarrow> do {
          (c, fn1) \<leftarrow> setCall env fn f args ell;
          emit0 fn1 (Defer c)
        }
      | _ \<Rightarrow> None)"
| "stmt env label fn (ReturnStmt rs) =
     (if isInit fn then do {
        fn1 \<leftarrow> emit0 fn RunDefers;
        block \<leftarrow> outermostBreak (targetStack fn) None;
        fn2 \<leftarrow> emitJump fn1 block;
        (let (u, fn3) = newBasicBlock fn2 ''unreachable''
         in Some (fn3\<lparr>currentBlock := Some u\<rparr>))
      }
      else do {
        (results, fn1) \<leftarrow>
          (if length rs = 1 \<and> length (SigResults fn) > 1 then do {
             (tuple, f1) \<leftarrow> exprN env fn (hd rs);
             (case Type' tuple of
                TTuple ts \<Rightarrow> returnExtracts f1 tuple ts 0 []
              | _ \<Rightarrow> None)
           }
           else returnExprs env fn rs 0 []);
        fn2 \<leftarrow>
          (case namedResults fn1 of
             Some nrs \<Rightarrow> storeResults fn1 nrs results
           | None \<Rightarrow> Some fn1);
        fn3 \<leftarrow> emit0 fn2 RunDefers;
        (results', fn4) \<leftarrow>
          (case namedResults fn3 of
             Some nrs \<Rightarrow> loadResults fn3 nrs []
           | None \<Rightarrow> Some (results, fn3));
        fn5 \<leftarrow> emit0 fn4 (Ret results');
        (let (u, fn6) = newBasicBlock fn5 ''unreachable''
         in Some (fn6\<lparr>currentBlock := Some u\<rparr>))
      })"
| "stmt env label fn (BranchStmt tok lbl) =
     (let (block, fn1) = branchBlock fn tok lbl
      in if tok = GOTO \<and> lbl = None then None
         else case block of
           None \<Rightarrow> Some fn1
         | Some b \<Rightarrow> do {
             fn2 \<leftarrow> emitJump fn1 b;
             (let (u, fn3) = newBasicBlock fn2 ''unreachable''
              in Some (fn3\<lparr>currentBlock := Some u\<rparr>))
           })"
| "stmt env label fn (BlockStmt list) = stmtList env fn list"
| "stmt env label fn (IfStmt init c body els) = do {
     fn1 \<leftarrow> (case init of None \<Rightarrow> Some fn | Some s \<Rightarrow> stmt env None fn s);
     (let (then', fn2) = newBasicBlock fn1 ''if.then'';
          (done, fn3) = newBasicBlock fn2 ''if.done'';
          (els', fn4) = (case els of None \<Rightarrow> (done, fn3) | Some s \<Rightarrow> newBasicBlock fn3 ''if.else'')
      in do {
        fn5 \<leftarrow> cond env fn4 c then' els';
        fn6 \<leftarrow> stmt env None (fn5\<lparr>currentBlock := Some then'\<rparr>) body;
        fn7 \<leftarrow> emitJump fn6 done;
        fn8 \<leftarrow>
          (case els of
             None \<Rightarrow> Some fn7
           | Some s \<Rightarrow> do {
               f \<leftarrow> stmt env None (fn7\<lparr>currentBlock := Some els'\<rparr>) s;
               emitJump f done
             });
        Some (fn8\<lparr>currentBlock := Some done\<rparr>)
      })
   }"
| "stmt env label fn (ForStmt init c post body) = do {
     fn1 \<leftarrow> (case init of None \<Rightarrow> Some fn | Some s \<Rightarrow> stmt env None fn s);
     (let (body', fn2) = newBasicBlock fn1 ''for.body'';
          (done, fn3) = newBasicBlock fn2 ''for.done'';
          (loop, fn4) = (case c of None \<Rightarrow> (body', fn3) | Some e \<Rightarrow> newBasicBlock fn3 ''for.loop'');
          (cont, fn5) = (case post of None \<Rightarrow> (loop, fn4) | Some s \<Rightarrow> newBasicBlock fn4 ''for.post'')
      in do {
        fn6 \<leftarrow> emitJump (setLabelTargets fn5 label done cont) loop;
        fn7 \<leftarrow>
          (case c of
             None \<Rightarrow> Some (fn6\<lparr>currentBlock := Some loop\<rparr>)
           | Some e \<Rightarrow> do {
               f \<leftarrow> cond env (fn6\<lparr>currentBlock := Some loop\<rparr>) e body' done;
               Some (f\<lparr>currentBlock := Some body'\<rparr>)
             });
        fn8 \<leftarrow> stmt env None
                 (pushTargets fn7 \<lparr>t_break = Some done, t_continue = Some cont, t_fallthrough = None\<rparr>)
                 body;
        fn9 \<leftarrow> popTargets fn8;
        fn10 \<leftarrow> emitJump fn9 cont;
        fn11 \<leftarrow>
          (case post of
             None \<Rightarrow> Some fn10
           | Some s \<Rightarrow> do {
               f \<leftarrow> stmt env None (fn10\<lparr>currentBlock := Some cont\<rparr>) s;
               emitJump f loop
             });
        Some (fn11\<lparr>currentBlock := Some done\<rparr>)
      })
   }"
| "stmt env label fn (RangeStmt key val' tok x body) =
     (let tk = (if \<not> isBlankIdent key then Some (TypeOf env key) else None);
          tv = (case val' of
                  None \<Rightarrow> None
                | Some ve \<Rightarrow> if \<not> isBlankIdent ve then Some (TypeOf env ve) else None)
      in do {
        fn1 \<leftarrow>
          (if tok = DEFINE \<and> tk \<noteq> None then
             (case key of
                Ident name \<Rightarrow> map_option snd (addNamedLocal fn (ObjectOf env name))
              | _ \<Rightarrow> None)
           else Some fn);
        fn2 \<leftarrow>
          (if tok = DEFINE \<and> tv \<noteq> None then
             (case val' of
                Some (Ident name) \<Rightarrow> map_option snd (addNamedLocal fn1 (ObjectOf env name))
              | _ \<Rightarrow> None)
           else Some fn1);
        (xv, fn3) \<leftarrow> expr env fn2 x;
        ((k, v, loop, done), fn4) \<leftarrow>
          (case Underlying (Type' xv) of
             TSlice el \<Rightarrow> rangeIndexed env fn3 xv tv
           | TArray el n \<Rightarrow> rangeIndexed env fn3 xv tv
           | TPointer el \<Rightarrow> rangeIndexed env fn3 xv tv
           | TChan el \<Rightarrow> rangeChan fn3 xv tk
           | TMap kt vt \<Rightarrow> rangeIter fn3 xv tk tv
           | TBasic b \<Rightarrow> rangeIter fn3 xv tk tv
           | _ \<Rightarrow> None);
        (kl, fn5) \<leftarrow>
          (if tk \<noteq> None then do { (l, f) \<leftarrow> addr env fn4 key False; Some (Some l, f) }
           else Some (None, fn4));
        (vl, fn6) \<leftarrow>
          (case val' of
             Some ve \<Rightarrow>
               (if tv \<noteq> None then do { (l, f) \<leftarrow> addr env fn5 ve False; Some (Some l, f) }
                else Some (None, fn5))
           | None \<Rightarrow> Some (None, fn5));
        fn7 \<leftarrow>
          (case kl of
             None \<Rightarrow> Some fn6
           | Some l \<Rightarrow> (case k of None \<Rightarrow> None | Some kv \<Rightarrow> lvalue_store fn6 l kv));
        fn8 \<leftarrow>
          (case vl of
             None \<Rightarrow> Some fn7
           | Some l \<Rightarrow> (case v of None \<Rightarrow> None | Some vv \<Rightarrow> lvalue_store fn7 l vv));
        fn9 \<leftarrow> stmt env None
                 (pushTargets (setLabelTargets fn8 label done loop)
                    \<lparr>t_break = Some done, t_continue = Some loop, t_fallthrough = None\<rparr>)
                 body;
        fn10 \<leftarrow> popTargets fn9;
        fn11 \<leftarrow> emitJump fn10 loop;
        Some (fn11\<lparr>currentBlock := Some done\<rparr>)
      })"

| "stmtList env fn [] = Some fn"
| "stmtList env fn (s # list) = do {
     fn1 \<leftarrow> stmt env None fn s;
     stmtList env fn1 list
   }"
  by pat_completeness auto
termination
  by (relation "measure (case_sum (\<lambda>(env, label, fn, s). size s)
                                  (\<lambda>(env, fn, list). size_list size list))")
     auto

section \<open>Packages: the CREATE and BUILD phases\<close>

text \<open>
  Declarations and files of \<^verbatim>\<open>go/ast\<close>: a \<open>GenDecl\<close> has its keyword and specs, a
  \<open>FuncDecl\<close> says whether it has a receiver, its name and its body; a file lists the
  paths it imports (unquoted) and its declarations. A \<^verbatim>\<open>types.Package\<close> has a path, the
  objects of its scope and its imports; the checker's callbacks fill the \<^verbatim>\<open>TypeInfo\<close>.
\<close>

datatype spec = ValueSpec "string list" "Expr list" | TypeSpec string | ImportSpec string

datatype decl = GenDecl token "spec list" | FuncDecl bool string "Stmt option"

record astFile =
  Imports :: "string list"
  Decls :: "decl list"

record typkg =
  tpPath :: string
  tpScope :: "obj list"
  tpImports :: "(string \<times> string) list"

record typeinfo =
  ti_types :: "Expr \<Rightarrow> ty"
  ti_idents :: "string \<Rightarrow> obj"
  ti_constants :: "Expr \<Rightarrow> (constv \<times> ty) option"

datatype member = MType string | MConstant string ty | MGlobal string ty | MFunction string ty

text \<open>
  \<^verbatim>\<open>Package\<close>: \<open>pending\<close> lists the globals whose \<^verbatim>\<open>spec\<close> field is still set,
  \<open>nTo1Vars\<close> the n:1 specs already evaluated. \<^verbatim>\<open>Builder\<close>: the packages by import
  path (\<^verbatim>\<open>Prog.Packages\<close>) and by type-checker package, the index of package-level objects,
  the concrete methods, and the client's \<^verbatim>\<open>RetainAST\<close> predicate.
\<close>

record package =
  pTypes :: typkg
  Members :: "(string \<times> member) list"
  Files :: "astFile list option"
  TypeInfo :: "typeinfo option"
  Init :: func
  started :: bool
  pending :: "string list"
  nTo1Vars :: "spec list"

record builder =
  ProgPackages :: "(string \<times> package) list"
  packages :: "(string \<times> package) list"
  bGlobals :: "(obj \<times> val) list"
  concreteMethods :: "(string \<times> val) list"
  RetainAST :: "(package \<Rightarrow> bool) option"

text \<open>
  \<^verbatim>\<open>typecheck\<close> invokes the type checker, a parameter here: it answers with the package it
  formed, the type information its callbacks recorded and the first error, if any.
\<close>

definition typecheck ::
    "(string \<Rightarrow> astFile list option \<Rightarrow> typkg \<times> typeinfo \<times> 'e option) \<Rightarrow> string \<Rightarrow> astFile list option
       \<Rightarrow> (typkg \<times> typeinfo) option \<times> 'e option" where
  "typecheck tc importPath files =
     (case tc importPath files of
        (tp, info, firstErr) \<Rightarrow>
          (case firstErr of
             Some e \<Rightarrow> (None, Some e)
           | None \<Rightarrow> (Some (tp, info), None)))"

text \<open>
  \<^verbatim>\<open>memberFromObject\<close>: \<open>isMethod\<close> is the test \<^verbatim>\<open>sig.Recv() != nil\<close>,
  \<open>hasSpec\<close> says that the syntax is a \<^verbatim>\<open>ValueSpec\<close>. The value of a constant and the
  method sets of a type are not carried.
\<close>

definition memberFromObject ::
    "builder \<Rightarrow> package \<Rightarrow> obj \<Rightarrow> bool \<Rightarrow> bool \<Rightarrow> (package \<times> builder) option" where
  "memberFromObject b pkg ob isMethod hasSpec =
     (let name = objName ob in
      case objKind ob of
        Typ \<Rightarrow> Some (pkg\<lparr>Members := (name, MType name) # Members pkg\<rparr>, b)
      | Con \<Rightarrow> Some (pkg\<lparr>Members := (name, MConstant name (objType ob)) # Members pkg\<rparr>, b)
      | Var \<Rightarrow>
          Some (pkg\<lparr>Members := (name, MGlobal name (pointer (objType ob))) # Members pkg,
                    pending := (if hasSpec then name # pending pkg else pending pkg)\<rparr>,
                b\<lparr>bGlobals := (ob, Global name (pointer (objType ob))) # bGlobals b\<rparr>)
      | Fun \<Rightarrow>
          (case objType ob of
             TSignature ps v rs \<Rightarrow>
               (if \<not> isMethod then
                  Some (pkg\<lparr>Members := (name, MFunction name (objType ob)) # Members pkg\<rparr>,
                        b\<lparr>bGlobals := (ob, FunctionV name (objType ob)) # bGlobals b\<rparr>)
                else
                  Some (pkg, b\<lparr>concreteMethods :=
                                 (name, FunctionV name (objType ob)) # concreteMethods b\<rparr>))
           | _ \<Rightarrow> None)
      | PkgName \<Rightarrow> None)"

fun membersFromNames ::
    "builder \<Rightarrow> package \<Rightarrow> typeinfo \<Rightarrow> string list \<Rightarrow> bool \<Rightarrow> (package \<times> builder) option" where
  "membersFromNames b pkg info [] hasSpec = Some (pkg, b)"
| "membersFromNames b pkg info (name # names) hasSpec =
     (if name = ''_'' then membersFromNames b pkg info names hasSpec
      else do {
        (pkg1, b1) \<leftarrow> memberFromObject b pkg (ti_idents info name) False hasSpec;
        membersFromNames b1 pkg1 info names hasSpec
      })"

fun membersFromSpecs ::
    "builder \<Rightarrow> package \<Rightarrow> typeinfo \<Rightarrow> token \<Rightarrow> spec list \<Rightarrow> (package \<times> builder) option" where
  "membersFromSpecs b pkg info tok [] = Some (pkg, b)"
| "membersFromSpecs b pkg info tok (sp # specs) = do {
     (pkg1, b1) \<leftarrow>
       (if tok = CONST_tok \<or> tok = VAR_tok then
          (case sp of
             ValueSpec names values \<Rightarrow> membersFromNames b pkg info names (tok = VAR_tok)
           | _ \<Rightarrow> None)
        else
          (case sp of
             TypeSpec name \<Rightarrow> membersFromNames b pkg info [name] False
           | _ \<Rightarrow> None));
     membersFromSpecs b1 pkg1 info tok specs
   }"

definition membersFromDecl ::
    "builder \<Rightarrow> package \<Rightarrow> typeinfo \<Rightarrow> decl \<Rightarrow> (package \<times> builder) option" where
  "membersFromDecl b pkg info d =
     (case d of
        GenDecl tok specs \<Rightarrow>
          (if tok = CONST_tok \<or> tok = VAR_tok \<or> tok = TYPE_tok then membersFromSpecs b pkg info tok specs
           else Some (pkg, b))
      | FuncDecl recv name body \<Rightarrow>
          (if \<not> recv \<and> name = ''init'' then Some (pkg, b)
           else if name \<noteq> ''_'' then memberFromObject b pkg (ti_idents info name) recv False
           else Some (pkg, b)))"

fun membersFromDecls ::
    "builder \<Rightarrow> package \<Rightarrow> typeinfo \<Rightarrow> decl list \<Rightarrow> (package \<times> builder) option" where
  "membersFromDecls b pkg info [] = Some (pkg, b)"
| "membersFromDecls b pkg info (d # ds) = do {
     (pkg1, b1) \<leftarrow> membersFromDecl b pkg info d;
     membersFromDecls b1 pkg1 info ds
   }"

fun membersFromScope :: "builder \<Rightarrow> package \<Rightarrow> obj list \<Rightarrow> (package \<times> builder) option" where
  "membersFromScope b pkg [] = Some (pkg, b)"
| "membersFromScope b pkg (ob # obs) = do {
     (pkg1, b1) \<leftarrow> memberFromObject b pkg ob False False;
     membersFromScope b1 pkg1 obs
   }"

text \<open>The \<^verbatim>\<open>Function\<close> that \<^verbatim>\<open>createPackageImpl\<close> makes for the package initialiser.\<close>

definition initFunction :: func where
  "initFunction = \<lparr>
     SigResults = [], Blocks = [], currentBlock = None, Locals = [], namedResults = None,
     targetStack = [], objects = [], lblocks = [], isInit = True\<rparr>"

definition createPackageImpl ::
    "builder \<Rightarrow> typkg \<Rightarrow> string \<Rightarrow> astFile list option \<Rightarrow> typeinfo \<Rightarrow> (package \<times> builder) option" where
  "createPackageImpl b tp importPath files info = do {
     (p1, b1) \<leftarrow>
       (let p = \<lparr>pTypes = tp, Members = [], Files = files,
                   TypeInfo = (case files of None \<Rightarrow> None | Some fs \<Rightarrow> Some info),
                   Init = initFunction, started = False, pending = [], nTo1Vars = []\<rparr>
        in case files of
             Some (f # fs) \<Rightarrow> membersFromDecls b p info (concat (map Decls (f # fs)))
           | _ \<Rightarrow> membersFromScope b p (tpScope tp));
     (let p2 = p1\<lparr>Members :=
                    (''init$guard'', MGlobal ''init$guard'' (pointer tBool)) # Members p1\<rparr>
      in Some (p2, b1\<lparr>packages := (tpPath tp, p2) # packages b1,
                        ProgPackages := (importPath, p2) # ProgPackages b1\<rparr>))
   }"

text \<open>
  \<^verbatim>\<open>CreatePackage\<close> returns a package and an error, like the source; \<open>None\<close> is a
  panic of \<^verbatim>\<open>createPackageImpl\<close>.
\<close>

definition CreatePackage ::
    "(string \<Rightarrow> astFile list option \<Rightarrow> typkg \<times> typeinfo \<times> 'e option) \<Rightarrow> builder \<Rightarrow> string
       \<Rightarrow> astFile list option \<Rightarrow> ((package option \<times> 'e option) \<times> builder) option" where
  "CreatePackage tc b importPath files =
     (case typecheck tc importPath files of
        (r, Some err) \<Rightarrow> Some ((None, Some err), b)
      | (Some (tp, info), None) \<Rightarrow>
          map_option (\<lambda>(p, b'). ((Some p, None), b')) (createPackageImpl b tp importPath files info)
      | (None, None) \<Rightarrow> None)"

text \<open>
  Modelled from the spec: \<^verbatim>\<open>Package.Var\<close> (ssa.go) is not among the source files; it gives
  the package-level variable of that name, if the package has one.
\<close>

definition pkgVar :: "package \<Rightarrow> string \<Rightarrow> val option" where
  "pkgVar p name =
     (case map_of (Members p) name of
        Some (MGlobal n t) \<Rightarrow> Some (Global n t)
      | _ \<Rightarrow> None)"

text \<open>
  The BUILD phase, followed on the package initialiser. The loop of \<^verbatim>\<open>BuildPackage\<close> over
  the imports emits a call to the initialiser of each imported package, once.
\<close>

fun importInits ::
    "builder \<Rightarrow> package \<Rightarrow> string list \<Rightarrow> string option list \<Rightarrow> func \<Rightarrow> func option" where
  "importInits b p [] seen init = Some init"
| "importInits b p (path # paths) seen init =
     (if path = ''unsafe'' then importInits b p paths seen init
      else
        (let tp = map_of (tpImports (pTypes p)) path in
         if tp \<in> set seen then importInits b p paths seen init
         else
           (case tp \<bind> map_of (packages b) of
              None \<Rightarrow> None
            | Some p2 \<Rightarrow> do {
                init1 \<leftarrow> emit0 init
                  (Call (CallCommon (Some (FunctionV (tpPath (pTypes p2) @ ''.init'')
                                             (TSignature [] False []))) [] False)
                     (TTuple []));
                importInits b p paths (tp # seen) init1
              })))"

text \<open>
  \<^verbatim>\<open>globalValueSpec\<close> as \<^verbatim>\<open>buildDecl\<close> calls it (\<open>g\<close> and \<open>obj\<close> nil): it
  initialises all globals of the spec that are still pending. The state is the initialiser,
  the pending globals and the n:1 specs already evaluated.
\<close>

fun globalValueSpec_1to1 ::
    "env \<Rightarrow> func \<times> string list \<Rightarrow> string list \<Rightarrow> Expr list \<Rightarrow> (func \<times> string list) option" where
  "globalValueSpec_1to1 env st [] values = Some st"
| "globalValueSpec_1to1 env (init, pend) (name # names) values =
     (case values of
        [] \<Rightarrow> None
      | v # vs \<Rightarrow>
          (if name = ''_'' then do {
             init1 \<leftarrow> exprInPlace env init blank v;
             globalValueSpec_1to1 env (init1, pend) names vs
           }
           else
             (case globals env (ObjectOf env name) of
                Some (Global g t) \<Rightarrow>
                  (if g \<notin> set pend then globalValueSpec_1to1 env (init, pend) names vs
                   else do {
                     init1 \<leftarrow> exprInPlace env init (address (Global g t)) v;
                     globalValueSpec_1to1 env (init1, removeAll g pend) names vs
                   })
              | _ \<Rightarrow> None)))"

fun globalValueSpec_nto1 ::
    "env \<Rightarrow> func \<times> string list \<Rightarrow> val \<Rightarrow> ty list \<Rightarrow> nat \<Rightarrow> string list \<Rightarrow> (func \<times> string list) option" where
  "globalValueSpec_nto1 env st tuple ts i [] = Some st"
| "globalValueSpec_nto1 env (init, pend) tuple ts i (name # names) =
     (if name = ''_'' then globalValueSpec_nto1 env (init, pend) tuple ts (Suc i) names
      else
        (case globals env (ObjectOf env name) of
           Some (Global g t) \<Rightarrow>
             (if i < length ts then do {
                (x, init1) \<leftarrow> emitExtract init tuple i (ts ! i);
                init2 \<leftarrow> emitStore init1 (Global g t) x;
                globalValueSpec_nto1 env (init2, removeAll g pend) tuple ts (Suc i) names
              } else None)
         | _ \<Rightarrow> None))"

definition globalValueSpec ::
    "env \<Rightarrow> func \<times> string list \<times> spec list \<Rightarrow> spec \<Rightarrow> (func \<times> string list \<times> spec list) option" where
  "globalValueSpec env st sp =
     (case st of (init, pend, n1) \<Rightarrow>
      case sp of
        ValueSpec names values \<Rightarrow>
          (if length values = length names then
             map_option (\<lambda>(i, p). (i, p, n1)) (globalValueSpec_1to1 env (init, pend) names values)
           else if length values = 0 then Some st
           else if sp \<in> set n1 then Some st
           else do {
             (tuple, init1) \<leftarrow> exprN env init (hd values);
             (case Type' tuple of
                TTuple ts \<Rightarrow>
                  map_option (\<lambda>(i, p). (i, p, sp # n1))
                    (globalValueSpec_nto1 env (init1, pend) tuple ts 0 names)
              | _ \<Rightarrow> None)
           })
      | _ \<Rightarrow> None)"

fun globalValueSpecs ::
    "env \<Rightarrow> func \<times> string list \<times> spec list \<Rightarrow> spec list \<Rightarrow> (func \<times> string list \<times> spec list) option" where
  "globalValueSpecs env st [] = Some st"
| "globalValueSpecs env st (sp # specs) = do {
     st1 \<leftarrow> globalValueSpec env st sp;
     globalValueSpecs env st1 specs
   }"

text \<open>
  \<^verbatim>\<open>buildDecl\<close>: the variable specs and the init blocks write to the initialiser; the
  functions and methods it builds are other \<^verbatim>\<open>Function\<close> objects.
\<close>

definition buildDecl ::
    "env \<Rightarrow> func \<times> string list \<times> spec list \<Rightarrow> decl \<Rightarrow> (func \<times> string list \<times> spec list) option" where
  "buildDecl env st d =
     (case st of (init, pend, n1) \<Rightarrow>
      case d of
        GenDecl tok specs \<Rightarrow>
          (if tok = VAR_tok then globalValueSpecs env st specs else Some st)
      | FuncDecl recv name body \<Rightarrow>
          (if name = ''_'' then Some st
           else if \<not> recv \<and> name = ''init'' then
             (let (next, init1) = newBasicBlock init ''init.next'' in do {
                b \<leftarrow> body;
                init2 \<leftarrow> stmt env None
                           (pushTargets init1
                              \<lparr>t_break = Some next, t_continue = None, t_fallthrough = None\<rparr>) b;
                init3 \<leftarrow> emit0 init2 RunDefers;
                init4 \<leftarrow> emitJump init3 next;
                init5 \<leftarrow> popTargets init4;
                Some (init5\<lparr>currentBlock := Some next\<rparr>, pend, n1)
              })
           else Some st))"

fun buildDecls ::
    "env \<Rightarrow> func \<times> string list \<times> spec list \<Rightarrow> decl list \<Rightarrow> (func \<times> string list \<times> spec list) option" where
  "buildDecls env st [] = Some st"
| "buildDecls env st (d # ds) = do {
     st1 \<leftarrow> buildDecl env st d;
     buildDecls env st1 ds
   }"

text \<open>
  The first part of \<^verbatim>\<open>BuildPackage\<close>: the initialiser's body is started and made to skip
  if the package is already initialised.
\<close>

definition initGuard :: "package \<Rightarrow> ((nat \<times> nat) \<times> func) option" where
  "initGuard p =
     (case pkgVar p ''init$guard'' of
        None \<Rightarrow> None
      | Some initguard \<Rightarrow>
          (let init = startBody (Init p);
               (doinit, init1) = newBasicBlock init ''init.start'';
               (done, init2) = newBasicBlock init1 ''init.done''
           in do {
             (ld, init3) \<leftarrow> emitLoad init2 initguard;
             init4 \<leftarrow> emitIf init3 ld done doinit;
             init5 \<leftarrow> emitStore (init4\<lparr>currentBlock := Some doinit\<rparr>) initguard vTrue;
             Some ((doinit, done), init5)
           }))"

text \<open>
  \<^verbatim>\<open>BuildPackage\<close>. The result is the package with its initialiser as the builder
  emitted it; the finishing passes of \<^verbatim>\<open>Function.finishBody\<close> (func.go) are not among the
  source files and are not applied.
\<close>

definition BuildPackage :: "env \<Rightarrow> builder \<Rightarrow> package \<Rightarrow> package option" where
  "BuildPackage env b p =
     (if started p then Some p
      else
        (case Files p of
           None \<Rightarrow> Some (p\<lparr>started := True\<rparr>)
         | Some files \<Rightarrow> do {
             ((doinit, done), init5) \<leftarrow> initGuard p;
             init6 \<leftarrow> importInits b p (concat (map Imports files)) [] init5;
             (init7, pend, n1) \<leftarrow>
               buildDecls env (init6, pending p, nTo1Vars p) (concat (map Decls files));
             init8 \<leftarrow> emitJump init7 done;
             init9 \<leftarrow> emit0 (init8\<lparr>currentBlock := Some done\<rparr>) RunDefers;
             init10 \<leftarrow> emit0 init9 (Ret []);
             (let p1 = p\<lparr>started := True, Init := init10, pending := pend, nTo1Vars := []\<rparr>
              in Some (case RetainAST b of
                         None \<Rightarrow> p1\<lparr>Files := None, TypeInfo := None\<rparr>
                       | Some retain \<Rightarrow>
                           if retain p1 then p1 else p1\<lparr>Files := None, TypeInfo := None\<rparr>))
           }))"

section \<open>Predicates of the properties\<close>








fun isIf :: "instr \<Rightarrow> bool" where
  "isIf (If' c) = True"
| "isIf i = False"

fun isNew :: "instr \<Rightarrow> bool" where
  "isNew (Alloc t h) = h"
| "isNew i = False"

fun isStore :: "instr \<Rightarrow> bool" where
  "isStore (Store a v) = True"
| "isStore i = False"

fun isSlice :: "instr \<Rightarrow> bool" where
  "isSlice (Slice x l h t) = True"
| "isSlice i = False"

text \<open>
  The current block is the block created last, it is named \<open>unreachable\<close>, and it has no
  instruction, no predecessor and no successor.
\<close>

definition freshUnreachable :: "func \<Rightarrow> bool" where
  "freshUnreachable fn' =
     (case currentBlock fn' of
        None \<Rightarrow> False
      | Some u \<Rightarrow> Suc u = length (Blocks fn') \<and>
          Blocks fn' ! u = \<lparr>Comment = ''unreachable'', Instrs = [], Preds = [], Succs = []\<rparr>)"

text \<open>
  One function state extends another: it has the blocks of the other, under the same names,
  and each of them has the instructions of the other as the beginning of its own (an
  \<open>Alloc\<close> may have been marked as escaping in between).
\<close>

fun clearHeap :: "instr \<Rightarrow> instr" where
  "clearHeap (Alloc t h) = Alloc t False"
| "clearHeap i = i"

definition block_ext :: "block \<Rightarrow> block \<Rightarrow> bool" where
  "block_ext b b' \<longleftrightarrow>
     Comment b = Comment b' \<and> prefix (map clearHeap (Instrs b)) (map clearHeap (Instrs b'))"

definition ext :: "func \<Rightarrow> func \<Rightarrow> bool" where
  "ext fn fn' \<longleftrightarrow>
     length (Blocks fn) \<le> length (Blocks fn') \<and>
     list_all2 block_ext (Blocks fn) (take (length (Blocks fn)) (Blocks fn'))"

section \<open>A concrete package for the scenarios\<close>

text \<open>
  The identifiers of the scenarios: \<open>g\<close> is \<^verbatim>\<open>func() bool\<close> and \<open>f\<close> is
  \<^verbatim>\<open>func(xs ...int)\<close>, both package-level functions; \<open>n\<close>, \<open>s\<close> and \<open>a\<close>
  are locals of type \<^verbatim>\<open>int\<close>, \<^verbatim>\<open>[]int\<close> and \<^verbatim>\<open>[3]int\<close>; \<open>i\<close> and
  \<open>v\<close> are the variables a range statement defines; \<open>true\<close> and \<open>false\<close> are the
  universe's constants; \<open>make\<close>, \<open>len\<close> and \<open>panic\<close> are built-ins.
\<close>

definition tG :: ty where "tG = TSignature [] False [tBool]"
definition tF :: ty where "tF = TSignature [tInt] True []"

fun exObjectOf :: "string \<Rightarrow> obj" where
  "exObjectOf name =
     (if name = ''g'' then Object ''g'' Fun tG
      else if name = ''f'' then Object ''f'' Fun tF
      else if name = ''n'' then Object ''n'' Var tInt
      else if name = ''s'' then Object ''s'' Var (TSlice tInt)
      else if name = ''a'' then Object ''a'' Var (TArray tInt 3)
      else if name = ''i'' then Object ''i'' Var tInt
      else if name = ''v'' then Object ''v'' Var tInt
      else if name = ''true'' \<or> name = ''false'' then Object name Con (TBasic KUntypedBool)
      else Object name Fun tInvalid)"

fun exTypeOf :: "Expr \<Rightarrow> ty" where
  "exTypeOf (Ident name) = objType (exObjectOf name)"
| "exTypeOf (ParenExpr x) = exTypeOf x"
| "exTypeOf (UnaryExpr op x) = exTypeOf x"
| "exTypeOf (BinaryExpr x op y) =
     (if op \<in> {LAND, LOR, EQL, NEQ, LSS, GTR, LEQ, GEQ} then tBool else exTypeOf x)"
| "exTypeOf (CallExpr fe args ell) =
     (case fe of
        Ident name \<Rightarrow>
          (if name = ''make'' then TSlice tInt
           else if name = ''len'' then tInt
           else (case exTypeOf fe of
                   TSignature ps v [r] \<Rightarrow> r
                 | TSignature ps v rs \<Rightarrow> TTuple rs
                 | _ \<Rightarrow> tInvalid))
      | _ \<Rightarrow> tInvalid)"
| "exTypeOf (IndexExpr x i) =
     (case exTypeOf x of TSlice el \<Rightarrow> el | TArray el n \<Rightarrow> el | _ \<Rightarrow> tInvalid)"
| "exTypeOf (ArrayType l el) = TSlice tInt"
| "exTypeOf e = tInvalid"

definition exEnv :: env where
  "exEnv = \<lparr>
     TypeOf = exTypeOf,
     ValueOf = (\<lambda>e. if e = Ident ''true'' then Some (BoolV True, tBool)
                    else if e = Ident ''false'' then Some (BoolV False, tBool)
                    else None),
     ObjectOf = exObjectOf,
     IsType = (\<lambda>e. case e of ArrayType l el \<Rightarrow> True | _ \<Rightarrow> False),
     globals = (\<lambda>ob. if ob = Object ''g'' Fun tG then Some (FunctionV ''g'' tG)
                      else if ob = Object ''f'' Fun tF then Some (FunctionV ''f'' tF)
                      else if objName ob \<in> {''make'', ''len'', ''panic''}
                        then Some (Builtin (objName ob))
                      else None),
     Builtins = (\<lambda>ob. objName ob \<in> {''make'', ''len'', ''panic''}),
     builtinCallSignature = (\<lambda>fe args. ([], False, [])),
     Universe = (\<lambda>name. Object name Fun tInvalid)
   \<rparr>"

text \<open>
  A function whose body starts: the entry block holds the stack slots of the locals
  \<open>n\<close>, \<open>s\<close> and \<open>a\<close>.
\<close>

definition exFn :: func where
  "exFn = \<lparr>
     SigResults = [tBool],
     Blocks = [\<lparr>Comment = ''entry'',
                Instrs = [Alloc (pointer tInt) False,
                          Alloc (pointer (TSlice tInt)) False,
                          Alloc (pointer (TArray tInt 3)) False],
                Preds = [], Succs = []\<rparr>],
     currentBlock = Some 0,
     Locals = [Reg 0 0 (pointer tInt), Reg 0 1 (pointer (TSlice tInt)),
               Reg 0 2 (pointer (TArray tInt 3))],
     namedResults = None,
     targetStack = [],
     objects = [(Object ''n'' Var tInt, Reg 0 0 (pointer tInt)),
                (Object ''s'' Var (TSlice tInt), Reg 0 1 (pointer (TSlice tInt))),
                (Object ''a'' Var (TArray tInt 3), Reg 0 2 (pointer (TArray tInt 3)))],
     lblocks = [],
     isInit = False
   \<rparr>"

text \<open>
  The compile-time length of an array type or pointer-to-array type, named or not; \<open>None\<close>
  for every other type.
\<close>

definition arrayLength :: "ty \<Rightarrow> int option" where
  "arrayLength t =
     (case Underlying t of
        TArray el n \<Rightarrow> Some n
      | TPointer p \<Rightarrow> (case Underlying p of TArray el n \<Rightarrow> Some n | _ \<Rightarrow> None)
      | _ \<Rightarrow> None)"

definition gcall :: Expr where
  "gcall = CallExpr (Ident ''g'') [] False"



section \<open>Properties\<close>

lemma arrayLength_Deref:
  assumes "arrayLength t = Some n"
  shows "\<exists>el. Underlying (Deref t) = TArray el n"
proof (cases t)
  case (TNamed s u)
  with assms show ?thesis
    by (cases u) (auto simp: arrayLength_def split: ty.splits)
next
  case (TPointer p)
  with assms show ?thesis
    by (auto simp: arrayLength_def split: ty.splits)
qed (use assms in \<open>auto simp: arrayLength_def split: ty.splits\<close>)

text \<open>
  C6. For a call \<^verbatim>\<open>len(a)\<close> or \<^verbatim>\<open>cap(a)\<close> whose argument has array or
  pointer-to-array type, the builtin lowering evaluates the argument expression (its
  instructions stay in the function) and returns the integer literal of the array's
  compile-time length.
\<close>

theorem C6_len_cap_array_literal:
  assumes "arrayLength (TypeOf env a) = Some n"
    and "name = ''len'' \<or> name = ''cap''"
  shows "builtin env fn name (a # as) typ =
           map_option (\<lambda>(x, fn1). (Some (intLiteral n), fn1)) (expr env fn a)"
proof -
  obtain el where "Underlying (Deref (TypeOf env a)) = TArray el n"
    using arrayLength_Deref [OF assms(1)] by blast
  with assms(2) show ?thesis
    by (cases "expr env fn a") auto
qed

theorem C6_len_cap_array_literal_witness:
  "arrayLength (TypeOf exEnv (Ident ''a'')) = Some 3
   \<and> builtin exEnv exFn ''len'' [Ident ''a''] tInt =
       Some (Some (intLiteral 3),
             exFn\<lparr>Blocks := [\<lparr>Comment = ''entry'',
                Instrs = [Alloc (pointer tInt) False,
                          Alloc (pointer (TSlice tInt)) False,
                          Alloc (pointer (TArray tInt 3)) False,
                          UnOp MUL (Reg 0 2 (pointer (TArray tInt 3))) False (TArray tInt 3)],
                Preds = [], Succs = []\<rparr>]\<rparr>)"
proof -
  have h: "arrayLength (TypeOf exEnv (Ident ''a'')) = Some 3"
    by (simp add: arrayLength_def exEnv_def tInt_def)
  have e: "expr exEnv exFn (Ident ''a'') =
      Some (Reg 0 3 (TArray tInt 3),
            exFn\<lparr>Blocks := [\<lparr>Comment = ''entry'',
                Instrs = [Alloc (pointer tInt) False,
                          Alloc (pointer (TSlice tInt)) False,
                          Alloc (pointer (TArray tInt 3)) False,
                          UnOp MUL (Reg 0 2 (pointer (TArray tInt 3))) False (TArray tInt 3)],
                Preds = [], Succs = []\<rparr>]\<rparr>)"
    by (simp add: valueOf_def lookup_def exEnv_def exFn_def fnLookup_def emitLoad_def emit_def
        blockEmit_def pointer_def tInt_def tG_def tF_def)
  show ?thesis
    using h C6_len_cap_array_literal [OF h, of "''len''" exFn "[]" tInt] e by simp
qed

text \<open>
  C7. For \<^verbatim>\<open>make([]T, n)\<close> with exactly one size argument, the builtin lowering evaluates
  \<open>n\<close> once and emits a \<open>MakeSlice\<close> whose \<open>Len\<close> and \<open>Cap\<close> operands are both the
  value computed for \<open>n\<close>.
\<close>

theorem C7_make_slice_len_is_cap:
  assumes "Underlying typ = TSlice el"
  shows "builtin env fn ''make'' [t, n] typ =
           (case expr env fn n of
              None \<Rightarrow> None
            | Some (nv, fn1) \<Rightarrow>
                map_option (\<lambda>(v, fn2). (Some v, fn2)) (emit fn1 (MakeSlice nv nv typ)))"
  using assms by (auto split: option.splits Option.bind_splits)

theorem C7_make_slice_len_is_cap_witness:
  "Underlying (TSlice tInt) = TSlice tInt
   \<and> builtin exEnv exFn ''make'' [ArrayType None (Ident ''int''), Ident ''n''] (TSlice tInt) =
       Some (Some (Reg 0 4 (TSlice tInt)),
             exFn\<lparr>Blocks := [\<lparr>Comment = ''entry'',
                Instrs = [Alloc (pointer tInt) False,
                          Alloc (pointer (TSlice tInt)) False,
                          Alloc (pointer (TArray tInt 3)) False,
                          UnOp MUL (Reg 0 0 (pointer tInt)) False tInt,
                          MakeSlice (Reg 0 3 tInt) (Reg 0 3 tInt) (TSlice tInt)],
                Preds = [], Succs = []\<rparr>]\<rparr>)"
proof -
  have e: "expr exEnv exFn (Ident ''n'') =
      Some (Reg 0 3 tInt,
            exFn\<lparr>Blocks := [\<lparr>Comment = ''entry'',
                Instrs = [Alloc (pointer tInt) False,
                          Alloc (pointer (TSlice tInt)) False,
                          Alloc (pointer (TArray tInt 3)) False,
                          UnOp MUL (Reg 0 0 (pointer tInt)) False tInt],
                Preds = [], Succs = []\<rparr>]\<rparr>)"
    by (simp add: valueOf_def lookup_def exEnv_def exFn_def fnLookup_def emitLoad_def emit_def
        blockEmit_def pointer_def tInt_def tG_def tF_def)
  show ?thesis
    using C7_make_slice_len_is_cap [of "TSlice tInt" tInt exEnv exFn
        "ArrayType None (Ident ''int'')" "Ident ''n''"] e
    by (simp add: emit_def blockEmit_def exFn_def)
qed

subsection \<open>Conditions end the current block\<close>







lemmas eval_defs = exEnv_def exFn_def gcall_def valueOf_def lookup_def fnLookup_def emitLoad_def
  emit_def emit0_def blockEmit_def newBasicBlock_def addEdge_def emitJump_def emitIf_def
  emitConv_def emitStore_def emitArith_def emitCompare_def emitExtract_def emitNew_def
  addLocal_def addNamedLocal_def cond_dispatch_def newLiteral_def intLiteral_def nilLiteral_def
  vTrue_def vFalse_def vOne_def vZero_def pointer_def tInt_def tBool_def tG_def tF_def
  tInvalid_def tEface_def Let_def


subsection \<open>Short-circuit evaluation\<close>









text \<open>
  The two scenarios of the specification, lowered as the body of a function whose entry block
  holds three locals: \<open>return true && g()\<close> calls \<open>g\<close> in the \<open>binop.rhs\<close> block and
  returns the register of the call, with no \<open>Phi\<close> and no \<open>If\<close>; \<open>return false && g()\<close>
  emits no call and returns the literal false from the \<open>binop.done\<close> block.
\<close>

lemma return_true_and_g:
  "map_option (\<lambda>f. (map Instrs (Blocks f), map Succs (Blocks f), currentBlock f))
     (stmt exEnv None exFn (ReturnStmt [BinaryExpr (Ident ''true'') LAND gcall])) =
   Some ([[Alloc (TPointer (TBasic KInt)) False, Alloc (TPointer (TSlice (TBasic KInt))) False,
           Alloc (TPointer (TArray (TBasic KInt) 3)) False, Jump],
          [Call (CallCommon (Some (FunctionV ''g'' (TSignature [] False [TBasic KBool]))) [] False)
             (TBasic KBool),
           RunDefers, Ret [Reg 1 0 (TBasic KBool)]],
          [], []],
         [[1], [], [], []], Some 3)"
  by (simp add: eval_defs)

lemma return_false_and_g:
  "map_option (\<lambda>f. (map Instrs (Blocks f), map Succs (Blocks f), currentBlock f))
     (stmt exEnv None exFn (ReturnStmt [BinaryExpr (Ident ''false'') LAND gcall])) =
   Some ([[Alloc (TPointer (TBasic KInt)) False, Alloc (TPointer (TSlice (TBasic KInt))) False,
           Alloc (TPointer (TArray (TBasic KInt) 3)) False, Jump],
          [],
          [RunDefers, Ret [Literal' (BoolV False) (TBasic KBool)]],
          []],
         [[2], [], [], []], Some 3)"
  by (simp add: eval_defs)


end
